theory Spec2Isabelle
  imports Main "HOL-Library.Word" "HOL-Library.Sublist"
begin

section \<open>Values of the program\<close>

text \<open>
  The module \<^verbatim>\<open>api_clients.py\<close> holds three functions: \<^verbatim>\<open>pil2base64\<close>,
  \<^verbatim>\<open>get_openai_output\<close> and \<^verbatim>\<open>get_gemini_output\<close>. They call the vendor
  libraries (PIL, openai, google.generativeai) and the operating system environment; what
  those answer is not decided by the module, so it is a parameter of the model (the record
  \<open>world\<close> below). Everything the module itself does (the order of its steps, its
  tests, the strings it builds, its exception handlers) is modelled as written.
\<close>

type_synonym byte = "8 word"

text \<open>
  A Python exception is its class and the text \<^verbatim>\<open>str(e)\<close> that an f-string
  prints for it. The classes are the built-in ones the module names or can meet, with the
  built-in hierarchy between them: \<^verbatim>\<open>IndexError\<close> and \<^verbatim>\<open>KeyError\<close>
  derive from \<^verbatim>\<open>LookupError\<close>. \<open>VendorError\<close> stands for a class that a vendor
  library defines below \<^verbatim>\<open>Exception\<close> (outside the \<^verbatim>\<open>LookupError\<close>
  family), known by its name. Every class here derives from \<^verbatim>\<open>Exception\<close>:
  signals of the interpreter (\<^verbatim>\<open>KeyboardInterrupt\<close>, \<^verbatim>\<open>SystemExit\<close>) are not
  outcomes of a library call and are not modelled.
\<close>

datatype exn_class =
    EnvironmentError
  | LookupError
  | IndexError
  | KeyError
  | RuntimeError
  | ValueError
  | VendorError string

datatype py_exn = Exn (exn_cls: exn_class) (exn_str: string)

text \<open>\<^verbatim>\<open>isinstance(e, LookupError)\<close>, the test of \<^verbatim>\<open>except LookupError\<close>.\<close>

fun is_LookupError :: "exn_class \<Rightarrow> bool" where
  "is_LookupError LookupError = True"
| "is_LookupError IndexError = True"
| "is_LookupError KeyError = True"
| "is_LookupError _ = False"

section \<open>Base64 (\<^verbatim>\<open>base64.b64encode\<close>)\<close>

text \<open>
  The standard alphabet with \<^verbatim>\<open>=\<close> padding. \<^verbatim>\<open>b64encode\<close> returns ASCII
  bytes and the module decodes them as UTF-8, which maps each ASCII byte to the character
  of the same code: the model produces the text directly.
\<close>

definition b64_alphabet :: string where
  "b64_alphabet = ''ABCDEFGHIJKLMNOPQRSTUVWXYZabcdefghijklmnopqrstuvwxyz0123456789+/''"

definition b64_char :: "nat \<Rightarrow> char" where
  "b64_char n = b64_alphabet ! (n mod 64)"

fun b64encode :: "byte list \<Rightarrow> string" where
  "b64encode (a # b # c # rest) =
     (let n = unat a * 65536 + unat b * 256 + unat c in
      [b64_char (n div 262144), b64_char (n div 4096), b64_char (n div 64), b64_char n]
      @ b64encode rest)"
| "b64encode [a, b] =
     (let n = unat a * 65536 + unat b * 256 in
      [b64_char (n div 262144), b64_char (n div 4096), b64_char (n div 64), CHR ''=''])"
| "b64encode [a] =
     (let n = unat a * 65536 in
      [b64_char (n div 262144), b64_char (n div 4096), CHR ''='', CHR ''=''])"
| "b64encode [] = []"

text \<open>
  The decoder of the round trip: \<^verbatim>\<open>base64.b64decode\<close> on canonical input (groups
  of four characters of the alphabet, padding only in the last group). Anything else is
  \<open>None\<close> here.
\<close>

fun index_of :: "'a \<Rightarrow> 'a list \<Rightarrow> nat option" where
  "index_of x [] = None"
| "index_of x (y # ys) = (if x = y then Some 0 else map_option Suc (index_of x ys))"

definition b64_val :: "char \<Rightarrow> nat option" where
  "b64_val c = index_of c b64_alphabet"

definition b64_quad :: "char \<Rightarrow> char \<Rightarrow> char \<Rightarrow> char \<Rightarrow> nat option" where
  "b64_quad c1 c2 c3 c4 =
     (case (b64_val c1, b64_val c2, b64_val c3, b64_val c4) of
        (Some v1, Some v2, Some v3, Some v4) \<Rightarrow> Some (((v1 * 64 + v2) * 64 + v3) * 64 + v4)
      | _ \<Rightarrow> None)"

fun b64decode :: "string \<Rightarrow> byte list option" where
  "b64decode [] = Some []"
| "b64decode (c1 # c2 # c3 # c4 # rest) =
     (if rest = [] \<and> c3 = CHR ''='' \<and> c4 = CHR ''='' then
        map_option (\<lambda>n. [of_nat (n div 65536)]) (b64_quad c1 c2 CHR ''A'' CHR ''A'')
      else if rest = [] \<and> c4 = CHR ''='' then
        map_option (\<lambda>n. [of_nat (n div 65536), of_nat (n div 256)]) (b64_quad c1 c2 c3 CHR ''A'')
      else
        (case (b64_quad c1 c2 c3 c4, b64decode rest) of
           (Some n, Some bs) \<Rightarrow> Some (of_nat (n div 65536) # of_nat (n div 256) # of_nat n # bs)
         | _ \<Rightarrow> None))"
| "b64decode _ = None"

section \<open>The outside world\<close>

text \<open>
  What one invocation can be answered. Each field is one call the module makes; a call
  either raises (\<open>Inl\<close>, or \<open>Some\<close> where the call returns nothing) or returns.
  \<^item> \<open>environ\<close>: \<^verbatim>\<open>os.environ.get\<close>;
  \<^item> \<open>image_save\<close>: \<^verbatim>\<open>pil_image.save(stream, format=...)\<close> followed by
    \<^verbatim>\<open>stream.getvalue()\<close>, the bytes written;
  \<^item> \<open>openai_init\<close>, \<open>models_list\<close>, \<open>chat_create\<close>: the constructor
    \<^verbatim>\<open>OpenAI(api_key=...)\<close>, \<^verbatim>\<open>client.models.list().data\<close> read down to the
    identifiers, and \<^verbatim>\<open>client.chat.completions.create\<close>;
  \<^item> \<open>genai_configure\<close>, \<open>genai_list_models\<close>, \<open>genai_model_init\<close>,
    \<open>genai_generate\<close>: \<^verbatim>\<open>genai.configure\<close>, \<^verbatim>\<open>genai.list_models()\<close> read down
    to the names, the constructor \<^verbatim>\<open>genai.GenerativeModel(model_name=...)\<close> and
    \<^verbatim>\<open>generate_content\<close>. The module-level functions of \<^verbatim>\<open>genai\<close> receive no
    credential from the caller: they read the configuration that \<^verbatim>\<open>genai.configure\<close>
    stored in the library, so the model passes them that configuration.
\<close>

text \<open>The client object that \<^verbatim>\<open>OpenAI(api_key=...)\<close> builds: it holds the credential.\<close>

datatype client = OpenAI (client_api_key: string)

datatype content_part = Text_part string | Image_url_part string

record chat_message =
  role :: string
  content :: "content_part list"

record chat_request =
  req_model :: string
  req_messages :: "chat_message list"
  req_max_tokens :: int

text \<open>
  The reply of a chat completion: its choices, each with the content of its message, which
  the vendor types as an optional string (\<open>None\<close> is Python's \<^verbatim>\<open>None\<close>).
\<close>

datatype chat_response = Chat_response (choices: "string option list")

text \<open>The reply of \<^verbatim>\<open>generate_content\<close>: its property \<^verbatim>\<open>text\<close> returns or raises.\<close>

datatype gen_response = Gen_response (response_text: "py_exn + string")

type_synonym genai_config = "string \<times> string"

text \<open>
  The library calls of the module, with their arguments: the two constructors, the two
  catalog fetches, the save of the bitmap, \<^verbatim>\<open>genai.configure\<close> and the two
  generation calls.
\<close>

datatype 'img call =
    Call_openai_init string
  | Call_models_list client
  | Call_image_save 'img string
  | Call_chat_create client chat_request
  | Call_genai_configure string string
  | Call_genai_list_models
  | Call_generative_model string
  | Call_generate_content string string 'img

text \<open>
  The last field of the world, \<open>http_requests\<close>, is the number of HTTP requests
  that the vendor library sent while it served a call: the vendor clients repeat a request
  that failed and fetch a long catalog page by page, none of which the module sees.
\<close>

record 'img world =
  environ :: "string \<Rightarrow> string option"
  image_save :: "'img \<Rightarrow> string \<Rightarrow> py_exn + byte list"
  openai_init :: "string \<Rightarrow> py_exn option"
  models_list :: "client \<Rightarrow> py_exn + string list"
  chat_create :: "client \<Rightarrow> chat_request \<Rightarrow> py_exn + chat_response"
  genai_configure :: "string \<Rightarrow> string \<Rightarrow> py_exn option"
  genai_list_models :: "genai_config option \<Rightarrow> py_exn + string list"
  genai_model_init :: "string \<Rightarrow> py_exn option"
  genai_generate :: "genai_config option \<Rightarrow> string \<Rightarrow> string \<Rightarrow> 'img \<Rightarrow> py_exn + gen_response"
  http_requests :: "'img call \<Rightarrow> nat"

section \<open>\<^verbatim>\<open>pil2base64\<close>\<close>

definition pil2base64 :: "'img world \<Rightarrow> 'img \<Rightarrow> py_exn + string" where
  "pil2base64 w pil_image =
     (case image_save w pil_image ''PNG'' of
        Inr binary_data \<Rightarrow> Inr (b64encode binary_data)
      | Inl e \<Rightarrow> Inl (Exn RuntimeError (''Failed to convert image to base64: '' @ exn_str e)))"


section \<open>Python's text of a list of strings\<close>

text \<open>
  The f-string \<^verbatim>\<open>f"... {supported_models}"\<close> prints the list with \<^verbatim>\<open>str\<close>,
  which prints each item with \<^verbatim>\<open>repr\<close>: quoted with \<^verbatim>\<open>'\<close> (with
  \<^verbatim>\<open>"\<close> when the string holds a \<^verbatim>\<open>'\<close> and no \<^verbatim>\<open>"\<close>), the quote
  and the backslash escaped, tab, newline and carriage return as \<^verbatim>\<open>\t \n \r\<close>,
  other unprintable characters as \<^verbatim>\<open>\xhh\<close>. Text is modelled on the characters
  with a code below 256; among those above 126 Python prints 127 to 160 and 173 escaped.
\<close>

definition hex_digits :: string where
  "hex_digits = ''0123456789abcdef''"

definition hex2 :: "nat \<Rightarrow> string" where
  "hex2 n = [hex_digits ! (n div 16 mod 16), hex_digits ! (n mod 16)]"

definition py_printable :: "char \<Rightarrow> bool" where
  "py_printable c =
     (let n = (of_char c :: nat) in (32 \<le> n \<and> n < 127) \<or> (160 < n \<and> n \<noteq> 173))"

definition py_repr_char :: "char \<Rightarrow> char \<Rightarrow> string" where
  "py_repr_char quote c =
     (if c = quote \<or> c = CHR 0x5C then [CHR 0x5C, c]
      else if c = CHR 0x09 then [CHR 0x5C, CHR ''t'']
      else if c = CHR 0x0A then [CHR 0x5C, CHR ''n'']
      else if c = CHR 0x0D then [CHR 0x5C, CHR ''r'']
      else if py_printable c then [c]
      else [CHR 0x5C, CHR ''x''] @ hex2 (of_char c))"

definition py_repr :: "string \<Rightarrow> string" where
  "py_repr s =
     (let quote = (if CHR 0x27 \<in> set s \<and> CHR 0x22 \<notin> set s then CHR 0x22 else CHR 0x27)
      in [quote] @ concat (map (py_repr_char quote) s) @ [quote])"

fun join_comma :: "string list \<Rightarrow> string" where
  "join_comma [] = []"
| "join_comma [x] = x"
| "join_comma (x # y # ys) = x @ '', '' @ join_comma (y # ys)"

definition py_str_list :: "string list \<Rightarrow> string" where
  "py_str_list xs = ''['' @ join_comma (map py_repr xs) @ '']''"

section \<open>The process\<close>

text \<open>
  What outlives an invocation. The module has no variable of its own at module level; the
  vendor library \<^verbatim>\<open>genai\<close> keeps the configuration that \<^verbatim>\<open>genai.configure\<close>
  stores (the credential and the transport), here \<open>genai_default\<close>. \<open>calls\<close> is
  the record of the library calls made so far, in order, kept to state what an invocation
  did; the program cannot read it.
\<close>

record 'img process =
  genai_default :: "genai_config option"
  calls :: "'img call list"

definition call :: "'img call \<Rightarrow> 'img process \<Rightarrow> 'img process" where
  "call c s = s\<lparr>calls := calls s @ [c]\<rparr>"

text \<open>
  The calls that go to the network: the two catalog fetches and the two generations. The
  HTTP requests behind a list of calls are those of its network calls, added up.
\<close>

fun is_list_call :: "'img call \<Rightarrow> bool" where
  "is_list_call (Call_models_list _) = True"
| "is_list_call Call_genai_list_models = True"
| "is_list_call _ = False"

fun is_generate_call :: "'img call \<Rightarrow> bool" where
  "is_generate_call (Call_chat_create _ _) = True"
| "is_generate_call (Call_generate_content _ _ _) = True"
| "is_generate_call _ = False"

definition network_calls :: "'img call list \<Rightarrow> 'img call list" where
  "network_calls cs = filter (\<lambda>c. is_list_call c \<or> is_generate_call c) cs"

definition requests_sent :: "'img world \<Rightarrow> 'img call list \<Rightarrow> nat" where
  "requests_sent w cs = sum_list (map (http_requests w) (network_calls cs))"

section \<open>\<^verbatim>\<open>get_openai_output\<close>\<close>

definition unsupported_message :: "string \<Rightarrow> string list \<Rightarrow> string" where
  "unsupported_message model supported_models =
     ''Model '' @ [CHR 0x27] @ model @ [CHR 0x27]
     @ '' is not supported. Available models: '' @ py_str_list supported_models"

text \<open>The keyword arguments of \<^verbatim>\<open>client.chat.completions.create\<close>, lines 69 to 85.\<close>

definition create_arguments :: "string \<Rightarrow> string \<Rightarrow> string \<Rightarrow> int \<Rightarrow> chat_request" where
  "create_arguments model prompt image_url max_tokens =
     \<lparr>req_model = model,
      req_messages =
        [\<lparr>role = ''user'',
          content = [Text_part prompt, Image_url_part image_url]\<rparr>],
      req_max_tokens = max_tokens\<rparr>"

text \<open>
  The body of the \<^verbatim>\<open>try\<close> block, lines 53 to 90. The call of
  \<^verbatim>\<open>pil2base64\<close> at line 64 makes the one library call of that function, the save
  in format PNG, which is recorded here.
\<close>

definition openai_try ::
  "'img world \<Rightarrow> 'img \<Rightarrow> string \<Rightarrow> string \<Rightarrow> int \<Rightarrow> string \<Rightarrow> 'img process
   \<Rightarrow> (py_exn + string option) \<times> 'img process" where
  "openai_try w pil_image prompt model max_tokens api_key s =
     (let s1 = call (Call_openai_init api_key) s in
      case openai_init w api_key of
        Some e \<Rightarrow> (Inl e, s1)
      | None \<Rightarrow>
     (let client = OpenAI api_key;
          s2 = call (Call_models_list client) s1 in
      case models_list w client of
        Inl e \<Rightarrow> (Inl e, s2)
      | Inr supported_models \<Rightarrow>
      if model \<notin> set supported_models then
        (Inl (Exn LookupError (unsupported_message model supported_models)), s2)
      else
     (let s3 = call (Call_image_save pil_image ''PNG'') s2 in
      case pil2base64 w pil_image of
        Inl e \<Rightarrow> (Inl e, s3)
      | Inr image_base64 \<Rightarrow>
     (let image_url = ''data:image/jpeg;base64,'' @ image_base64;
          request = create_arguments model prompt image_url max_tokens;
          s4 = call (Call_chat_create client request) s3 in
      case chat_create w client request of
        Inl e \<Rightarrow> (Inl e, s4)
      | Inr response \<Rightarrow>
     (case choices response of
        [] \<Rightarrow> (Inl (Exn IndexError ''list index out of range''), s4)
      | output # _ \<Rightarrow> (Inr output, s4))))))"

text \<open>
  The function: the default of \<^verbatim>\<open>max_tokens\<close> (the argument is \<open>None\<close> when
  the caller leaves it out), the test of the credential, and the two handlers.
\<close>

definition get_openai_output ::
  "'img world \<Rightarrow> 'img \<Rightarrow> string \<Rightarrow> string \<Rightarrow> int option \<Rightarrow> 'img process
   \<Rightarrow> (py_exn + string option) \<times> 'img process" where
  "get_openai_output w pil_image prompt model max_tokens_arg s =
     (let max_tokens = (case max_tokens_arg of None \<Rightarrow> 300 | Some n \<Rightarrow> n) in
      case environ w ''OPENAI_API_KEY'' of
        None \<Rightarrow>
          (Inl (Exn EnvironmentError
             ''OpenAI API key is missing. Set 'OPENAI_API_KEY' in environment variables.''), s)
      | Some api_key \<Rightarrow>
          if api_key = [] then
            (Inl (Exn EnvironmentError
               ''OpenAI API key is missing. Set 'OPENAI_API_KEY' in environment variables.''), s)
          else
            (case openai_try w pil_image prompt model max_tokens api_key s of
               (Inr output, s') \<Rightarrow> (Inr output, s')
             | (Inl e, s') \<Rightarrow>
                 if is_LookupError (exn_cls e) then (Inl e, s')
                 else (Inl (Exn RuntimeError
                        (''Failed to generate OpenAI output: '' @ exn_str e)), s')))"

section \<open>\<^verbatim>\<open>get_gemini_output\<close>\<close>

text \<open>
  The body of the \<^verbatim>\<open>try\<close> block, lines 123 to 139. \<^verbatim>\<open>genai.configure\<close>
  returns nothing and the calls after it are given no credential: the configuration goes
  through the library's own state.
\<close>

definition gemini_try ::
  "'img world \<Rightarrow> 'img \<Rightarrow> string \<Rightarrow> string \<Rightarrow> string \<Rightarrow> 'img process
   \<Rightarrow> (py_exn + string) \<times> 'img process" where
  "gemini_try w pil_image prompt model api_key s =
     (let s1 = call (Call_genai_configure api_key ''rest'') s in
      case genai_configure w api_key ''rest'' of
        Some e \<Rightarrow> (Inl e, s1)
      | None \<Rightarrow>
     (let s2 = call Call_genai_list_models (s1\<lparr>genai_default := Some (api_key, ''rest'')\<rparr>) in
      case genai_list_models w (genai_default s2) of
        Inl e \<Rightarrow> (Inl e, s2)
      | Inr supported_models \<Rightarrow>
      if model \<notin> set supported_models then
        (Inl (Exn LookupError (unsupported_message model supported_models)), s2)
      else
     (let s3 = call (Call_generative_model model) s2 in
      case genai_model_init w model of
        Some e \<Rightarrow> (Inl e, s3)
      | None \<Rightarrow>
     (let s4 = call (Call_generate_content model prompt pil_image) s3 in
      case genai_generate w (genai_default s4) model prompt pil_image of
        Inl e \<Rightarrow> (Inl e, s4)
      | Inr response \<Rightarrow>
     (case response_text response of
        Inl e \<Rightarrow> (Inl e, s4)
      | Inr output \<Rightarrow> (Inr output, s4))))))"

definition get_gemini_output ::
  "'img world \<Rightarrow> 'img \<Rightarrow> string \<Rightarrow> string \<Rightarrow> 'img process
   \<Rightarrow> (py_exn + string) \<times> 'img process" where
  "get_gemini_output w pil_image prompt model s =
     (case environ w ''GOOGLE_API_KEY'' of
        None \<Rightarrow>
          (Inl (Exn EnvironmentError
             ''Google API key is missing. Set 'GOOGLE_API_KEY' in environment variables.''), s)
      | Some api_key \<Rightarrow>
          if api_key = [] then
            (Inl (Exn EnvironmentError
               ''Google API key is missing. Set 'GOOGLE_API_KEY' in environment variables.''), s)
          else
            (case gemini_try w pil_image prompt model api_key s of
               (Inr output, s') \<Rightarrow> (Inr output, s')
             | (Inl e, s') \<Rightarrow>
                 if is_LookupError (exn_cls e) then (Inl e, s')
                 else (Inl (Exn RuntimeError
                        (''Failed to generate Gemini output: '' @ exn_str e)), s')))"

section \<open>Observing an invocation\<close>

text \<open>The calls an invocation added to the record, from the states before and after it.\<close>

definition new_calls :: "'img process \<Rightarrow> 'img process \<Rightarrow> 'img call list" where
  "new_calls s s' = drop (length (calls s)) (calls s')"

text \<open>
  The order of the network calls of one invocation: nothing, or a catalog fetch, or a
  catalog fetch and then one generation.
\<close>

fun fetch_then_generate :: "'img call list \<Rightarrow> bool" where
  "fetch_then_generate [] = True"
| "fetch_then_generate [l] = is_list_call l"
| "fetch_then_generate [l, g] = (is_list_call l \<and> is_generate_call g)"
| "fetch_then_generate _ = False"




section \<open>Stubbed worlds\<close>

text \<open>
  Worlds of the kind a test sets up with mocks, to run the functions on. A bitmap is its
  list of sample bytes; the stubbed codec writes a four-byte signature before the samples,
  and reads them back.
\<close>

definition stub_save :: "byte list \<Rightarrow> string \<Rightarrow> py_exn + byte list" where
  "stub_save img format =
     (if format = ''PNG'' then Inr ([137, 80, 78, 71] @ img)
      else Inl (Exn ValueError ''unknown file extension''))"


definition stub_environ :: "string \<Rightarrow> string option" where
  "stub_environ name =
     (if name = ''OPENAI_API_KEY'' then Some ''sk-test''
      else if name = ''GOOGLE_API_KEY'' then Some ''g-test''
      else None)"

text \<open>Credentials set, catalog \<^verbatim>\<open>["m1", "m2"]\<close>, every call answers, the reply is "hello".\<close>

definition stub_world :: "byte list world" where
  "stub_world =
     \<lparr>environ = stub_environ,
      image_save = stub_save,
      openai_init = (\<lambda>api_key. None),
      models_list = (\<lambda>client. Inr [''m1'', ''m2'']),
      chat_create = (\<lambda>client request. Inr (Chat_response [Some ''hello''])),
      genai_configure = (\<lambda>api_key transport. None),
      genai_list_models = (\<lambda>config. Inr [''m1'', ''m2'']),
      genai_model_init = (\<lambda>model_name. None),
      genai_generate = (\<lambda>config model prompt img. Inr (Gen_response (Inr ''hello''))),
      http_requests = (\<lambda>c. 1)\<rparr>"

text \<open>The same with no variable set in the environment.\<close>

definition no_key_world :: "byte list world" where
  "no_key_world = stub_world\<lparr>environ := (\<lambda>name. None)\<rparr>"

text \<open>The same with a chat completion that comes back with no choice.\<close>

definition no_choice_world :: "byte list world" where
  "no_choice_world = stub_world\<lparr>chat_create := (\<lambda>client request. Inr (Chat_response []))\<rparr>"

text \<open>
  The same with generation calls that raise: a \<^verbatim>\<open>KeyError\<close> (whose text is the
  \<^verbatim>\<open>repr\<close> of its key), and a vendor's connection error.
\<close>

definition key_error_world :: "byte list world" where
  "key_error_world =
     stub_world\<lparr>chat_create := (\<lambda>client request. Inl (Exn KeyError [CHR 0x27, CHR ''x'', CHR 0x27])),
                genai_generate :=
                  (\<lambda>config model prompt img. Inl (Exn KeyError [CHR 0x27, CHR ''x'', CHR 0x27]))\<rparr>"

definition offline_world :: "byte list world" where
  "offline_world =
     stub_world\<lparr>chat_create :=
                  (\<lambda>client request. Inl (Exn (VendorError ''APIConnectionError'') ''Connection error.'')),
                genai_generate :=
                  (\<lambda>config model prompt img.
                     Inl (Exn (VendorError ''ServiceUnavailable'') ''503 unavailable''))\<rparr>"

text \<open>The same with an image that the codec refuses.\<close>

definition bad_image_world :: "byte list world" where
  "bad_image_world =
     stub_world\<lparr>image_save :=
                  (\<lambda>img format. Inl (Exn EnvironmentError ''cannot write mode F as PNG''))\<rparr>"

text \<open>
  The same with a catalog fetch that the vendor client had to send twice (the first request
  failed and the client repeated it, as it does by default).
\<close>

definition retry_world :: "byte list world" where
  "retry_world = stub_world\<lparr>http_requests := (\<lambda>c. if is_list_call c then 2 else 1)\<rparr>"






text \<open>A fresh process: nothing configured, no call made.\<close>

definition fresh :: "byte list process" where
  "fresh = \<lparr>genai_default = None, calls = []\<rparr>"

section \<open>Properties of the encoder\<close>

lemma b64_alphabet_length: "length b64_alphabet = 64"
  by (simp add: b64_alphabet_def)

lemma b64_alphabet_distinct: "distinct b64_alphabet"
  by (simp add: b64_alphabet_def)

lemma index_of_nth: "distinct xs \<Longrightarrow> n < length xs \<Longrightarrow> index_of (xs ! n) xs = Some n"
proof (induction xs arbitrary: n)
  case Nil
  then show ?case by simp
next
  case (Cons y ys)
  show ?case
  proof (cases n)
    case 0
    then show ?thesis by simp
  next
    case (Suc m)
    with Cons.prems have "m < length ys" "distinct ys" "ys ! m \<noteq> y"
      by auto
    with Cons.IH Suc show ?thesis by simp
  qed
qed

lemma b64_val_char: "b64_val (b64_char n) = Some (n mod 64)"
  unfolding b64_val_def b64_char_def
  by (rule index_of_nth) (simp_all add: b64_alphabet_distinct b64_alphabet_length)

lemma b64_char_in_alphabet: "b64_char n \<in> set b64_alphabet"
  unfolding b64_char_def by (rule nth_mem) (simp add: b64_alphabet_length)

lemma b64_char_not_pad: "b64_char n \<noteq> CHR ''=''"
proof
  assume "b64_char n = CHR ''=''"
  with b64_char_in_alphabet [of n] have "CHR ''='' \<in> set b64_alphabet" by simp
  then show False by (simp add: b64_alphabet_def)
qed

lemma sextets_join:
  fixes n :: nat
  shows "((n div 262144 mod 64 * 64 + n div 4096 mod 64) * 64 + n div 64 mod 64) * 64 + n mod 64
         = n mod 16777216"
proof -
  define q1 where "q1 = n div 64"
  define q2 where "q2 = q1 div 64"
  define q3 where "q3 = q2 div 64"
  have e1: "n div 4096 = q2" by (simp add: q2_def q1_def div_mult2_eq)
  have e2: "n div 262144 = q3" by (simp add: q3_def q2_def q1_def div_mult2_eq)
  have n1: "n = q1 * 64 + n mod 64" by (simp add: q1_def)
  have n2: "q1 = q2 * 64 + q1 mod 64" by (simp add: q2_def)
  have n3: "q2 = q3 * 64 + q2 mod 64" by (simp add: q3_def)
  have "n mod 16777216 = n mod 64 + 64 * (q1 mod 262144)"
    using mod_mult2_eq [of n 64 262144] by (simp add: q1_def)
  also have "q1 mod 262144 = q1 mod 64 + 64 * (q2 mod 4096)"
    using mod_mult2_eq [of q1 64 4096] by (simp add: q2_def)
  also have "q2 mod 4096 = q2 mod 64 + 64 * (q3 mod 64)"
    using mod_mult2_eq [of q2 64 64] by (simp add: q3_def)
  finally show ?thesis by (simp add: e1 e2 q1_def [symmetric] algebra_simps)
qed


lemma b64_val_A: "b64_val CHR ''A'' = Some 0"
  by (simp add: b64_val_def b64_alphabet_def)

lemma b64_quad_chars:
  "b64_quad (b64_char (n div 262144)) (b64_char (n div 4096)) (b64_char (n div 64)) (b64_char n)
   = Some (n mod 16777216)"
proof -
  have "b64_quad (b64_char (n div 262144)) (b64_char (n div 4096)) (b64_char (n div 64)) (b64_char n)
        = Some (((n div 262144 mod 64 * 64 + n div 4096 mod 64) * 64 + n div 64 mod 64) * 64 + n mod 64)"
    by (simp add: b64_quad_def b64_val_char)
  then show ?thesis by (simp only: sextets_join)
qed

lemma b64_quad_chars3:
  assumes "n mod 64 = 0"
  shows "b64_quad (b64_char (n div 262144)) (b64_char (n div 4096)) (b64_char (n div 64)) CHR ''A''
         = Some (n mod 16777216)"
  using sextets_join [of n] assms by (simp add: b64_quad_def b64_val_char b64_val_A)

lemma b64_quad_chars2:
  assumes "n mod 4096 = 0"
  shows "b64_quad (b64_char (n div 262144)) (b64_char (n div 4096)) CHR ''A'' CHR ''A''
         = Some (n mod 16777216)"
proof -
  have "n mod 64 = 0" using assms mod_mod_cancel [of 64 4096 n] by simp
  moreover have "n div 64 mod 64 = 0"
  proof -
    have "n mod 4096 = n mod 64 + 64 * (n div 64 mod 64)"
      using mod_mult2_eq [of n 64 64] by simp
    with assms show ?thesis by simp
  qed
  ultimately show ?thesis
    using sextets_join [of n] by (simp add: b64_quad_def b64_val_char b64_val_A)
qed

lemma unat_byte_less: "unat (a :: byte) < 256"
  using unsigned_less [of a] by simp

lemma byte_split:
  fixes a b c :: byte
  defines "n \<equiv> unat a * 65536 + unat b * 256 + unat c"
  shows "n mod 16777216 = n"
    and "of_nat (n div 65536) = a"
    and "of_nat (n div 256) = b"
    and "of_nat n = c"
proof -
  note a = unat_byte_less [of a] and b = unat_byte_less [of b] and c = unat_byte_less [of c]
  show "n mod 16777216 = n" using a b c by (simp add: n_def)
  have "n div 65536 = unat a" using b c by (simp add: n_def)
  then show "of_nat (n div 65536) = a" by simp
  have d: "n div 256 = unat a * 256 + unat b" using c by (simp add: n_def)
  have "unat (of_nat (n div 256) :: byte) = (n div 256) mod 256"
    by (simp add: unat_of_nat)
  also have "\<dots> = unat b" using b by (simp add: d)
  finally show "of_nat (n div 256) = b" by (rule unsigned_word_eqI)
  have "unat (of_nat n :: byte) = n mod 256"
    by (simp add: unat_of_nat)
  also have "\<dots> = unat c"
  proof -
    define k where "k = unat a * 256 + unat b"
    have "n = k * 256 + unat c" by (simp add: n_def k_def)
    then have "n mod 256 = unat c mod 256" by (simp only: mod_mult_self3)
    then show ?thesis using c by simp
  qed
  finally show "of_nat n = c" by (rule unsigned_word_eqI)
qed


lemma b64decode_b64encode: "b64decode (b64encode bs) = Some bs"
proof (induction bs rule: b64encode.induct)
  case (1 a b c rest)
  define n where "n = unat a * 65536 + unat b * 256 + unat c"
  have q: "b64_quad (b64_char (n div 262144)) (b64_char (n div 4096)) (b64_char (n div 64))
             (b64_char n) = Some n"
    using b64_quad_chars [of n] byte_split(1) [of a b c] by (simp add: n_def)
  have bytes: "of_nat (n div 65536) = a" "of_nat (n div 256) = b" "of_nat n = c"
    using byte_split(2,3,4) [of a b c] by (simp_all add: n_def)
  show ?case
    using 1 q bytes by (simp add: Let_def n_def [symmetric] b64_char_not_pad)
next
  case (2 a b)
  define n where "n = unat a * 65536 + unat b * 256 + unat (0::byte)"
  have "n mod 64 = 0" by (simp add: n_def)
  then have q: "b64_quad (b64_char (n div 262144)) (b64_char (n div 4096)) (b64_char (n div 64))
             CHR ''A'' = Some n"
    using b64_quad_chars3 [of n] byte_split(1) [of a b 0] by (simp add: n_def)
  have bytes: "of_nat (n div 65536) = a" "of_nat (n div 256) = b"
    using byte_split(2,3) [of a b 0] by (simp_all add: n_def)
  have n: "unat a * 65536 + unat b * 256 = n" by (simp add: n_def)
  show ?case
    using q bytes by (simp add: Let_def n b64_char_not_pad)
next
  case (3 a)
  define n where "n = unat a * 65536 + unat (0::byte) * 256 + unat (0::byte)"
  have "n mod 4096 = 0" by (simp add: n_def)
  then have q: "b64_quad (b64_char (n div 262144)) (b64_char (n div 4096)) CHR ''A'' CHR ''A''
           = Some n"
    using b64_quad_chars2 [of n] byte_split(1) [of a 0 0] by (simp add: n_def)
  have bytes: "of_nat (n div 65536) = a"
    using byte_split(2) [of a 0 0] by (simp add: n_def)
  have n: "unat a * 65536 = n" by (simp add: n_def)
  show ?case
    using q bytes by (simp add: Let_def n)
next
  case 4
  show ?case by simp
qed

lemma b64encode_length: "length (b64encode bs) = 4 * ((length bs + 2) div 3)"
proof (induction bs rule: b64encode.induct)
  case (1 a b c rest)
  have "(length rest + 5) div 3 = Suc ((length rest + 2) div 3)" by presburger
  with 1 show ?case by (simp add: Let_def add.commute)
qed (simp_all add: Let_def)

lemma b64encode_chars: "set (b64encode bs) \<subseteq> set b64_alphabet \<union> {CHR ''=''}"
  by (induction bs rule: b64encode.induct) (simp_all add: Let_def b64_char_in_alphabet)

section \<open>The stubbed worlds, evaluated\<close>

lemma bad_image_save:
  "image_save bad_image_world img ''PNG'' = Inl (Exn EnvironmentError ''cannot write mode F as PNG'')"
  by (simp add: bad_image_world_def stub_world_def)

lemma stub_image_save_123:
  "image_save stub_world [1, 2, 3] ''PNG'' = Inr [137, 80, 78, 71, 1, 2, 3]"
  by (simp add: stub_world_def stub_save_def)

lemma b64encode_example: "b64encode [137, 80, 78, 71, 1, 2, 3] = ''iVBORwECAw==''"
  by (simp add: b64_char_def b64_alphabet_def)




section \<open>Claims on the image encoder\<close>

text \<open>
  Claim C8. When the bitmap cannot be serialized (the save raises), \<^verbatim>\<open>pil2base64\<close>
  fails with the encoding error, a \<^verbatim>\<open>RuntimeError\<close> whose text holds the text of
  the cause. When the bitmap can be serialized, it returns a base64 text of the PNG bytes:
  the text is \<^verbatim>\<open>b64encode\<close> of the bytes, it decodes back to them, it is made
  of the base64 alphabet and the padding sign, and it has four characters for every three
  bytes, rounded up.
\<close>

theorem pil2base64_result:
  "(image_save w pil_image ''PNG'' = Inl e \<longrightarrow>
      pil2base64 w pil_image =
        Inl (Exn RuntimeError (''Failed to convert image to base64: '' @ exn_str e)))
   \<and> (image_save w pil_image ''PNG'' = Inr png \<longrightarrow>
      (\<exists>s. pil2base64 w pil_image = Inr s
         \<and> s = b64encode png
         \<and> b64decode s = Some png
         \<and> set s \<subseteq> set b64_alphabet \<union> {CHR ''=''}
         \<and> length s = 4 * ((length png + 2) div 3)))"
  using b64encode_chars [of png]
  by (simp add: pil2base64_def b64decode_b64encode b64encode_length del: b64encode.simps)

theorem pil2base64_result_witness:
  "pil2base64 bad_image_world [1, 2, 3] =
     Inl (Exn RuntimeError ''Failed to convert image to base64: cannot write mode F as PNG'')
   \<and> pil2base64 stub_world [1, 2, 3] = Inr ''iVBORwECAw==''
   \<and> b64decode ''iVBORwECAw=='' = Some [137, 80, 78, 71, 1, 2, 3]"
proof -
  note t1 = pil2base64_result [of bad_image_world "[1, 2, 3]"
      "Exn EnvironmentError ''cannot write mode F as PNG''", THEN conjunct1, rule_format,
      OF bad_image_save]
  note t2 = pil2base64_result [of stub_world "[1, 2, 3]" _ "[137, 80, 78, 71, 1, 2, 3]",
      THEN conjunct2, rule_format, OF stub_image_save_123]
  from t2 have a: "pil2base64 stub_world [1, 2, 3] = Inr (b64encode [137, 80, 78, 71, 1, 2, 3])"
    and b: "b64decode (b64encode [137, 80, 78, 71, 1, 2, 3]) = Some [137, 80, 78, 71, 1, 2, 3]"
    by (auto simp del: b64encode.simps b64decode.simps)
  from t1 have c: "pil2base64 bad_image_world [1, 2, 3] =
     Inl (Exn RuntimeError ''Failed to convert image to base64: cannot write mode F as PNG'')"
    by simp
  from a b c show ?thesis
    unfolding b64encode_example by (intro conjI)
qed




section \<open>The two queries, case by case\<close>

lemma calls_call: "calls (call c s) = calls s @ [c]"
  by (simp add: call_def)

lemma genai_default_call: "genai_default (call c s) = genai_default s"
  by (simp add: call_def)

lemma new_calls_same: "new_calls s s = []"
  by (simp add: new_calls_def)

lemma new_calls_append: "calls s' = calls s @ tr \<Longrightarrow> new_calls s s' = tr"
  by (simp add: new_calls_def)

text \<open>What the body of each \<^verbatim>\<open>try\<close> block leaves behind, case by case.\<close>

lemma openai_try_cases:
  assumes r: "r = openai_try w img prompt model max_tokens k s"
  shows "genai_default (snd r) = genai_default s \<and>
    ((\<exists>e. openai_init w k = Some e \<and> fst r = Inl e
          \<and> calls (snd r) = calls s @ [Call_openai_init k])
   \<or> (\<exists>e. openai_init w k = None \<and> models_list w (OpenAI k) = Inl e \<and> fst r = Inl e
          \<and> calls (snd r) = calls s @ [Call_openai_init k, Call_models_list (OpenAI k)])
   \<or> (\<exists>cat. openai_init w k = None \<and> models_list w (OpenAI k) = Inr cat \<and> model \<notin> set cat
          \<and> fst r = Inl (Exn LookupError (unsupported_message model cat))
          \<and> calls (snd r) = calls s @ [Call_openai_init k, Call_models_list (OpenAI k)])
   \<or> (\<exists>cat e. openai_init w k = None \<and> models_list w (OpenAI k) = Inr cat \<and> model \<in> set cat
          \<and> pil2base64 w img = Inl e \<and> fst r = Inl e
          \<and> calls (snd r) = calls s @ [Call_openai_init k, Call_models_list (OpenAI k),
                                        Call_image_save img ''PNG''])
   \<or> (\<exists>cat png request.
          openai_init w k = None \<and> models_list w (OpenAI k) = Inr cat \<and> model \<in> set cat
          \<and> image_save w img ''PNG'' = Inr png
          \<and> request = create_arguments model prompt
                         (''data:image/jpeg;base64,'' @ b64encode png) max_tokens
          \<and> calls (snd r) = calls s @ [Call_openai_init k, Call_models_list (OpenAI k),
                                        Call_image_save img ''PNG'',
                                        Call_chat_create (OpenAI k) request]
          \<and> fst r = (case chat_create w (OpenAI k) request of
                       Inl e \<Rightarrow> Inl e
                     | Inr response \<Rightarrow>
                         (case choices response of
                            [] \<Rightarrow> Inl (Exn IndexError ''list index out of range'')
                          | output # _ \<Rightarrow> Inr output))))"
  unfolding r openai_try_def pil2base64_def
  by (auto simp: Let_def calls_call genai_default_call split: option.splits sum.splits list.splits)

text \<open>The calls of the body of the first \<^verbatim>\<open>try\<close> block, as a function of the world.\<close>

lemma openai_try_calls:
  "calls (snd (openai_try w img prompt model max_tokens k s)) =
     calls s @
     Call_openai_init k #
     (case openai_init w k of
        Some e \<Rightarrow> []
      | None \<Rightarrow>
          Call_models_list (OpenAI k) #
          (case models_list w (OpenAI k) of
             Inl e \<Rightarrow> []
           | Inr catalog \<Rightarrow>
               if model \<notin> set catalog then []
               else
                 Call_image_save img ''PNG'' #
                 (case image_save w img ''PNG'' of
                    Inl e \<Rightarrow> []
                  | Inr png \<Rightarrow>
                      [Call_chat_create (OpenAI k)
                         (create_arguments model prompt
                            (''data:image/jpeg;base64,'' @ b64encode png) max_tokens)])))"
  unfolding openai_try_def pil2base64_def
  by (simp add: Let_def calls_call split: option.splits sum.splits list.splits
        del: append.simps b64encode.simps)

lemma gemini_try_calls:
  "calls (snd (gemini_try w img prompt model k s)) =
     calls s @
     Call_genai_configure k ''rest'' #
     (case genai_configure w k ''rest'' of
        Some e \<Rightarrow> []
      | None \<Rightarrow>
          Call_genai_list_models #
          (case genai_list_models w (Some (k, ''rest'')) of
             Inl e \<Rightarrow> []
           | Inr catalog \<Rightarrow>
               if model \<notin> set catalog then []
               else
                 Call_generative_model model #
                 (case genai_model_init w model of
                    Some e \<Rightarrow> []
                  | None \<Rightarrow> [Call_generate_content model prompt img])))"
  unfolding gemini_try_def
  by (simp add: Let_def calls_call call_def split: option.splits sum.splits)

lemma gemini_try_cases:
  assumes r: "r = gemini_try w img prompt model k s"
  shows
    "(\<exists>e. genai_configure w k ''rest'' = Some e \<and> fst r = Inl e
          \<and> genai_default (snd r) = genai_default s
          \<and> calls (snd r) = calls s @ [Call_genai_configure k ''rest''])
   \<or> (genai_configure w k ''rest'' = None \<and> genai_default (snd r) = Some (k, ''rest'') \<and>
       ((\<exists>e. genai_list_models w (Some (k, ''rest'')) = Inl e \<and> fst r = Inl e
            \<and> calls (snd r) = calls s @ [Call_genai_configure k ''rest'', Call_genai_list_models])
      \<or> (\<exists>cat. genai_list_models w (Some (k, ''rest'')) = Inr cat \<and> model \<notin> set cat
            \<and> fst r = Inl (Exn LookupError (unsupported_message model cat))
            \<and> calls (snd r) = calls s @ [Call_genai_configure k ''rest'', Call_genai_list_models])
      \<or> (\<exists>cat e. genai_list_models w (Some (k, ''rest'')) = Inr cat \<and> model \<in> set cat
            \<and> genai_model_init w model = Some e \<and> fst r = Inl e
            \<and> calls (snd r) = calls s @ [Call_genai_configure k ''rest'', Call_genai_list_models,
                                          Call_generative_model model])
      \<or> (\<exists>cat. genai_list_models w (Some (k, ''rest'')) = Inr cat \<and> model \<in> set cat
            \<and> genai_model_init w model = None
            \<and> calls (snd r) = calls s @ [Call_genai_configure k ''rest'', Call_genai_list_models,
                                          Call_generative_model model,
                                          Call_generate_content model prompt img]
            \<and> fst r = (case genai_generate w (Some (k, ''rest'')) model prompt img of
                         Inl e \<Rightarrow> Inl e
                       | Inr response \<Rightarrow> response_text response))))"
  unfolding r gemini_try_def
  by (auto simp: Let_def calls_call genai_default_call call_def split: option.splits sum.splits)

text \<open>The two \<^verbatim>\<open>except\<close> clauses, once the credential is there.\<close>

lemma openai_handler:
  "environ w ''OPENAI_API_KEY'' = Some k \<Longrightarrow> k \<noteq> [] \<Longrightarrow>
   get_openai_output w img prompt model mt s =
     (let r = openai_try w img prompt model (case mt of None \<Rightarrow> 300 | Some n \<Rightarrow> n) k s in
      case fst r of
        Inr output \<Rightarrow> (Inr output, snd r)
      | Inl e \<Rightarrow>
          if is_LookupError (exn_cls e) then (Inl e, snd r)
          else (Inl (Exn RuntimeError (''Failed to generate OpenAI output: '' @ exn_str e)), snd r))"
  by (simp add: get_openai_output_def Let_def split: prod.splits sum.splits)

lemma gemini_handler:
  "environ w ''GOOGLE_API_KEY'' = Some k \<Longrightarrow> k \<noteq> [] \<Longrightarrow>
   get_gemini_output w img prompt model s =
     (let r = gemini_try w img prompt model k s in
      case fst r of
        Inr output \<Rightarrow> (Inr output, snd r)
      | Inl e \<Rightarrow>
          if is_LookupError (exn_cls e) then (Inl e, snd r)
          else (Inl (Exn RuntimeError (''Failed to generate Gemini output: '' @ exn_str e)), snd r))"
  by (simp add: get_gemini_output_def Let_def split: prod.splits sum.splits)

text \<open>
  The test \<^verbatim>\<open>if not api_key\<close> also refuses a credential that is set to the empty
  string.
\<close>

lemma empty_credential_raises:
  "environ w ''OPENAI_API_KEY'' = Some [] \<Longrightarrow>
     get_openai_output w img prompt model mt s =
       (Inl (Exn EnvironmentError
          ''OpenAI API key is missing. Set 'OPENAI_API_KEY' in environment variables.''), s)"
  "environ w ''GOOGLE_API_KEY'' = Some [] \<Longrightarrow>
     get_gemini_output w img prompt model s =
       (Inl (Exn EnvironmentError
          ''Google API key is missing. Set 'GOOGLE_API_KEY' in environment variables.''), s)"
  by (simp_all add: get_openai_output_def get_gemini_output_def)

text \<open>The run in which every call answers.\<close>

lemma openai_success:
  assumes "environ w ''OPENAI_API_KEY'' = Some k" "k \<noteq> []"
    and "openai_init w k = None"
    and "models_list w (OpenAI k) = Inr catalog" "model \<in> set catalog"
    and "image_save w img ''PNG'' = Inr png"
    and "chat_create w (OpenAI k)
           (create_arguments model prompt (''data:image/jpeg;base64,'' @ b64encode png)
              (case mt of None \<Rightarrow> 300 | Some n \<Rightarrow> n)) = Inr (Chat_response (reply # others))"
  shows "get_openai_output w img prompt model mt s =
           (Inr reply,
            s\<lparr>calls := calls s @
               [Call_openai_init k, Call_models_list (OpenAI k), Call_image_save img ''PNG'',
                Call_chat_create (OpenAI k)
                  (create_arguments model prompt (''data:image/jpeg;base64,'' @ b64encode png)
                     (case mt of None \<Rightarrow> 300 | Some n \<Rightarrow> n))]\<rparr>)"
  using assms
  by (simp add: openai_handler openai_try_def pil2base64_def Let_def call_def)

lemma gemini_success:
  assumes "environ w ''GOOGLE_API_KEY'' = Some k" "k \<noteq> []"
    and "genai_configure w k ''rest'' = None"
    and "genai_list_models w (Some (k, ''rest'')) = Inr catalog" "model \<in> set catalog"
    and "genai_model_init w model = None"
    and "genai_generate w (Some (k, ''rest'')) model prompt img = Inr (Gen_response (Inr reply))"
  shows "get_gemini_output w img prompt model s =
           (Inr reply,
            s\<lparr>genai_default := Some (k, ''rest''),
              calls := calls s @
               [Call_genai_configure k ''rest'', Call_genai_list_models,
                Call_generative_model model, Call_generate_content model prompt img]\<rparr>)"
  using assms
  by (simp add: gemini_handler gemini_try_def Let_def call_def)

text \<open>The calls that one invocation of \<open>get_openai_output\<close> adds.\<close>

lemma openai_new_calls:
  "new_calls s (snd (get_openai_output w img prompt model mt s)) = [] \<or>
   (\<exists>k. environ w ''OPENAI_API_KEY'' = Some k \<and> k \<noteq> [] \<and>
     (new_calls s (snd (get_openai_output w img prompt model mt s)) = [Call_openai_init k]
      \<or> new_calls s (snd (get_openai_output w img prompt model mt s)) =
           [Call_openai_init k, Call_models_list (OpenAI k)]
      \<or> new_calls s (snd (get_openai_output w img prompt model mt s)) =
           [Call_openai_init k, Call_models_list (OpenAI k), Call_image_save img ''PNG'']
      \<or> (\<exists>cat png. models_list w (OpenAI k) = Inr cat \<and> model \<in> set cat
            \<and> image_save w img ''PNG'' = Inr png
            \<and> new_calls s (snd (get_openai_output w img prompt model mt s)) =
                [Call_openai_init k, Call_models_list (OpenAI k), Call_image_save img ''PNG'',
                 Call_chat_create (OpenAI k)
                   (create_arguments model prompt (''data:image/jpeg;base64,'' @ b64encode png)
                      (case mt of None \<Rightarrow> 300 | Some n \<Rightarrow> n))])))"
proof (cases "environ w ''OPENAI_API_KEY''")
  case None
  then show ?thesis by (simp add: get_openai_output_def new_calls_same)
next
  case (Some k)
  show ?thesis
  proof (cases "k = []")
    case True
    with Some show ?thesis by (simp add: get_openai_output_def new_calls_same)
  next
    case False
    define r where "r = openai_try w img prompt model (case mt of None \<Rightarrow> 300 | Some n \<Rightarrow> n) k s"
    have snd: "snd (get_openai_output w img prompt model mt s) = snd r"
      using Some False
      by (simp add: openai_handler r_def Let_def split: sum.splits)
    from openai_try_cases [OF r_def] Some False show ?thesis
      unfolding snd by (auto simp: new_calls_def)
  qed
qed

lemma chat_create_call_request:
  assumes "Call_chat_create c request
             \<in> set (new_calls s (snd (get_openai_output w img prompt model mt s)))"
  shows "\<exists>png. image_save w img ''PNG'' = Inr png
           \<and> request = create_arguments model prompt
                         (''data:image/jpeg;base64,'' @ b64encode png)
                         (case mt of None \<Rightarrow> 300 | Some n \<Rightarrow> n)"
  using assms openai_new_calls [of s w img prompt model mt]
  by (auto simp del: append.simps b64encode.simps)


text \<open>The stubbed worlds, run.\<close>

lemmas stub_defs = stub_world_def stub_environ_def stub_save_def

lemma no_key_environ: "environ no_key_world name = None"
  by (simp add: no_key_world_def stub_world_def)

lemma fresh_fields: "calls fresh = []" "genai_default fresh = None"
  by (simp_all add: fresh_def)

lemma stub_openai_run:
  "get_openai_output stub_world [1, 2, 3] ''describe'' ''m1'' mt fresh =
     (Inr (Some ''hello''),
      \<lparr>genai_default = None,
       calls = [Call_openai_init ''sk-test'', Call_models_list (OpenAI ''sk-test''),
                Call_image_save [1, 2, 3] ''PNG'',
                Call_chat_create (OpenAI ''sk-test'')
                  (create_arguments ''m1'' ''describe'' ''data:image/jpeg;base64,iVBORwECAw==''
                     (case mt of None \<Rightarrow> 300 | Some n \<Rightarrow> n))]\<rparr>)"
proof -
  have "get_openai_output stub_world [1, 2, 3] ''describe'' ''m1'' mt fresh =
     (Inr (Some ''hello''),
      fresh\<lparr>calls := calls fresh @ [Call_openai_init ''sk-test'', Call_models_list (OpenAI ''sk-test''),
                Call_image_save [1, 2, 3] ''PNG'',
                Call_chat_create (OpenAI ''sk-test'')
                  (create_arguments ''m1'' ''describe''
                     (''data:image/jpeg;base64,'' @ b64encode [137, 80, 78, 71, 1, 2, 3])
                     (case mt of None \<Rightarrow> 300 | Some n \<Rightarrow> n))]\<rparr>)"
    by (rule openai_success [where catalog = "[''m1'', ''m2'']" and others = "[]"])
       (simp_all add: stub_defs)
  then show ?thesis
    unfolding b64encode_example by (simp add: fresh_def)
qed

lemma stub_chat_create_call:
  "Call_chat_create (OpenAI ''sk-test'')
      (create_arguments ''m1'' ''describe'' ''data:image/jpeg;base64,iVBORwECAw=='' 300)
     \<in> set (new_calls fresh
              (snd (get_openai_output stub_world [1, 2, 3] ''describe'' ''m1'' None fresh)))"
  by (simp add: stub_openai_run new_calls_def fresh_fields)

section \<open>Claims on the two queries\<close>

text \<open>
  Claim C3. When the credential is absent from the environment, each query raises the
  configuration error (\<^verbatim>\<open>EnvironmentError\<close>) and has made no call at all by
  then: no catalog fetch, no generation, and the process is as it was.
\<close>

theorem missing_credential_raises_before_any_call:
  "(environ w ''OPENAI_API_KEY'' = None \<longrightarrow>
      fst (get_openai_output w img prompt model mt s) =
        Inl (Exn EnvironmentError
          ''OpenAI API key is missing. Set 'OPENAI_API_KEY' in environment variables.'')
      \<and> snd (get_openai_output w img prompt model mt s) = s
      \<and> new_calls s (snd (get_openai_output w img prompt model mt s)) = [])
   \<and> (environ w ''GOOGLE_API_KEY'' = None \<longrightarrow>
      fst (get_gemini_output w img prompt model s) =
        Inl (Exn EnvironmentError
          ''Google API key is missing. Set 'GOOGLE_API_KEY' in environment variables.'')
      \<and> snd (get_gemini_output w img prompt model s) = s
      \<and> new_calls s (snd (get_gemini_output w img prompt model s)) = [])"
  by (simp add: get_openai_output_def get_gemini_output_def new_calls_same)

theorem missing_credential_raises_before_any_call_witness:
  "environ no_key_world ''OPENAI_API_KEY'' = None
   \<and> environ no_key_world ''GOOGLE_API_KEY'' = None
   \<and> get_openai_output no_key_world [1, 2, 3] ''describe'' ''m1'' None fresh =
       (Inl (Exn EnvironmentError
          ''OpenAI API key is missing. Set 'OPENAI_API_KEY' in environment variables.''), fresh)
   \<and> get_gemini_output no_key_world [1, 2, 3] ''describe'' ''m1'' fresh =
       (Inl (Exn EnvironmentError
          ''Google API key is missing. Set 'GOOGLE_API_KEY' in environment variables.''), fresh)"
  using missing_credential_raises_before_any_call
          [of no_key_world "[1, 2, 3]" "''describe''" "''m1''" None fresh]
  by (simp add: no_key_environ prod_eq_iff)

text \<open>
  Claim C4. With the credential present, the model in the catalog and a generation call
  that returns, each query returns the text of the reply as it is: for the first provider
  the content of the first choice (which may be \<open>None\<close> or empty), for the second the
  text of the response. One generation call is made, there is no second try.
\<close>

theorem successful_call_returns_reply_verbatim:
  "(environ w ''OPENAI_API_KEY'' = Some k \<and> k \<noteq> []
      \<and> openai_init w k = None
      \<and> models_list w (OpenAI k) = Inr catalog \<and> model \<in> set catalog
      \<and> image_save w img ''PNG'' = Inr png
      \<and> chat_create w (OpenAI k)
           (create_arguments model prompt (''data:image/jpeg;base64,'' @ b64encode png)
              (case mt of None \<Rightarrow> 300 | Some n \<Rightarrow> n)) = Inr (Chat_response (reply # others))
    \<longrightarrow> fst (get_openai_output w img prompt model mt s) = Inr reply
      \<and> length (filter is_generate_call
                  (new_calls s (snd (get_openai_output w img prompt model mt s)))) = 1)
   \<and> (environ w ''GOOGLE_API_KEY'' = Some g \<and> g \<noteq> []
      \<and> genai_configure w g ''rest'' = None
      \<and> genai_list_models w (Some (g, ''rest'')) = Inr catalog' \<and> model' \<in> set catalog'
      \<and> genai_model_init w model' = None
      \<and> genai_generate w (Some (g, ''rest'')) model' prompt' img = Inr (Gen_response (Inr reply'))
    \<longrightarrow> fst (get_gemini_output w img prompt' model' s) = Inr reply'
      \<and> length (filter is_generate_call
                  (new_calls s (snd (get_gemini_output w img prompt' model' s)))) = 1)"
  by (auto simp: openai_success gemini_success new_calls_def)

theorem successful_call_returns_reply_verbatim_witness:
  "fst (get_openai_output stub_world [1, 2, 3] ''describe'' ''m1'' None fresh) = Inr (Some ''hello'')
   \<and> fst (get_gemini_output stub_world [1, 2, 3] ''describe'' ''m1'' fresh) = Inr ''hello''"
  using successful_call_returns_reply_verbatim
          [where w = stub_world and k = "''sk-test''" and catalog = "[''m1'', ''m2'']"
             and model = "''m1''" and img = "[1, 2, 3]" and png = "[137, 80, 78, 71, 1, 2, 3]"
             and prompt = "''describe''" and mt = None and reply = "Some ''hello''"
             and others = "[]" and s = fresh and g = "''g-test''"
             and catalog' = "[''m1'', ''m2'']" and model' = "''m1''"
             and prompt' = "''describe''" and reply' = "''hello''"]
  by (simp add: stub_defs)

text \<open>
  Claim C6. Every request that \<open>get_openai_output\<close> submits has the requested
  model, one message of role user whose content is a text part with the prompt followed by
  an image part whose address is a data URI holding the base64 text of the PNG bytes of the
  bitmap, and the token limit, which is 300 when the caller gives none.
\<close>

theorem openai_request_content:
  assumes "Call_chat_create c request
             \<in> set (new_calls s (snd (get_openai_output w img prompt model mt s)))"
  shows "\<exists>png. image_save w img ''PNG'' = Inr png
           \<and> request =
               \<lparr>req_model = model,
                req_messages =
                  [\<lparr>role = ''user'',
                    content = [Text_part prompt,
                               Image_url_part (''data:image/jpeg;base64,'' @ b64encode png)]\<rparr>],
                req_max_tokens = (case mt of None \<Rightarrow> 300 | Some n \<Rightarrow> n)\<rparr>
           \<and> b64decode (b64encode png) = Some png"
  using chat_create_call_request [OF assms]
  by (auto simp: create_arguments_def b64decode_b64encode simp del: b64encode.simps)

theorem openai_request_content_witness:
  "Call_chat_create (OpenAI ''sk-test'')
      (create_arguments ''m1'' ''describe'' ''data:image/jpeg;base64,iVBORwECAw=='' 300)
     \<in> set (new_calls fresh
              (snd (get_openai_output stub_world [1, 2, 3] ''describe'' ''m1'' None fresh)))
   \<and> (\<exists>png. image_save stub_world [1, 2, 3] ''PNG'' = Inr png
         \<and> create_arguments ''m1'' ''describe'' ''data:image/jpeg;base64,iVBORwECAw=='' 300 =
             \<lparr>req_model = ''m1'',
              req_messages =
                [\<lparr>role = ''user'',
                  content = [Text_part ''describe'',
                             Image_url_part (''data:image/jpeg;base64,'' @ b64encode png)]\<rparr>],
              req_max_tokens = (case None of None \<Rightarrow> 300 | Some n \<Rightarrow> n)\<rparr>
         \<and> b64decode (b64encode png) = Some png)"
  using stub_chat_create_call openai_request_content [OF stub_chat_create_call]
  by (rule conjI)



section \<open>The order of the calls\<close>

text \<open>The calls that one invocation of \<open>get_gemini_output\<close> adds, and what it configures.\<close>

lemma gemini_new_calls:
  "(new_calls s (snd (get_gemini_output w img prompt model s)) = []
      \<and> genai_default (snd (get_gemini_output w img prompt model s)) = genai_default s) \<or>
   (\<exists>k. environ w ''GOOGLE_API_KEY'' = Some k \<and> k \<noteq> [] \<and>
     ((genai_configure w k ''rest'' \<noteq> None
        \<and> genai_default (snd (get_gemini_output w img prompt model s)) = genai_default s
        \<and> new_calls s (snd (get_gemini_output w img prompt model s)) =
             [Call_genai_configure k ''rest''])
      \<or> (genai_configure w k ''rest'' = None
        \<and> genai_default (snd (get_gemini_output w img prompt model s)) = Some (k, ''rest'')
        \<and> (new_calls s (snd (get_gemini_output w img prompt model s)) =
               [Call_genai_configure k ''rest'', Call_genai_list_models]
           \<or> (\<exists>cat. genai_list_models w (Some (k, ''rest'')) = Inr cat \<and> model \<in> set cat
                \<and> (new_calls s (snd (get_gemini_output w img prompt model s)) =
                       [Call_genai_configure k ''rest'', Call_genai_list_models,
                        Call_generative_model model]
                   \<or> new_calls s (snd (get_gemini_output w img prompt model s)) =
                       [Call_genai_configure k ''rest'', Call_genai_list_models,
                        Call_generative_model model,
                        Call_generate_content model prompt img]))))))"
proof (cases "environ w ''GOOGLE_API_KEY''")
  case None
  then show ?thesis by (simp add: get_gemini_output_def new_calls_same)
next
  case (Some k)
  show ?thesis
  proof (cases "k = []")
    case True
    with Some show ?thesis by (simp add: get_gemini_output_def new_calls_same)
  next
    case False
    define r where "r = gemini_try w img prompt model k s"
    have snd: "snd (get_gemini_output w img prompt model s) = snd r"
      using Some False
      by (simp add: gemini_handler r_def Let_def split: sum.splits)
    from gemini_try_cases [OF r_def] Some False show ?thesis
      unfolding snd by (auto simp: new_calls_def)
  qed
qed

text \<open>Neither query reads the process it starts from.\<close>

lemma openai_try_independent:
  "fst (openai_try w img prompt model n k s) = fst (openai_try w img prompt model n k s0)
   \<and> new_calls s (snd (openai_try w img prompt model n k s))
     = new_calls s0 (snd (openai_try w img prompt model n k s0))"
  unfolding openai_try_def pil2base64_def new_calls_def
  by (simp add: Let_def call_def split: option.splits sum.splits list.splits)

lemma gemini_try_independent:
  "fst (gemini_try w img prompt model k s) = fst (gemini_try w img prompt model k s0)
   \<and> new_calls s (snd (gemini_try w img prompt model k s))
     = new_calls s0 (snd (gemini_try w img prompt model k s0))
   \<and> (genai_configure w k ''rest'' = None \<longrightarrow>
        genai_default (snd (gemini_try w img prompt model k s)) = Some (k, ''rest''))"
  unfolding gemini_try_def new_calls_def
  by (simp add: Let_def call_def split: option.splits sum.splits)

lemma openai_independent:
  "fst (get_openai_output w img prompt model mt s) = fst (get_openai_output w img prompt model mt s0)
   \<and> new_calls s (snd (get_openai_output w img prompt model mt s))
     = new_calls s0 (snd (get_openai_output w img prompt model mt s0))"
proof (cases "\<exists>k. environ w ''OPENAI_API_KEY'' = Some k \<and> k \<noteq> []")
  case True
  then obtain k where k: "environ w ''OPENAI_API_KEY'' = Some k" "k \<noteq> []" by blast
  show ?thesis
    using openai_try_independent [of w img prompt model "case mt of None \<Rightarrow> 300 | Some n \<Rightarrow> n" k s s0]
    by (simp add: openai_handler [OF k] Let_def split: sum.splits)
next
  case False
  then show ?thesis
    by (auto simp: get_openai_output_def new_calls_same split: option.splits)
qed

lemma gemini_independent:
  "fst (get_gemini_output w img prompt model s) = fst (get_gemini_output w img prompt model s0)
   \<and> new_calls s (snd (get_gemini_output w img prompt model s))
     = new_calls s0 (snd (get_gemini_output w img prompt model s0))"
proof (cases "\<exists>k. environ w ''GOOGLE_API_KEY'' = Some k \<and> k \<noteq> []")
  case True
  then obtain k where k: "environ w ''GOOGLE_API_KEY'' = Some k" "k \<noteq> []" by blast
  show ?thesis
    using gemini_try_independent [of w img prompt model k s s0]
    by (simp add: gemini_handler [OF k] Let_def split: sum.splits)
next
  case False
  then show ?thesis
    by (auto simp: get_gemini_output_def new_calls_same split: option.splits)
qed

text \<open>The record of calls only grows.\<close>

lemma openai_calls_append:
  "calls (snd (get_openai_output w img prompt model mt s)) =
     calls s @ new_calls s (snd (get_openai_output w img prompt model mt s))"
proof (cases "\<exists>k. environ w ''OPENAI_API_KEY'' = Some k \<and> k \<noteq> []")
  case True
  then obtain k where k: "environ w ''OPENAI_API_KEY'' = Some k" "k \<noteq> []" by blast
  define r where "r = openai_try w img prompt model (case mt of None \<Rightarrow> 300 | Some n \<Rightarrow> n) k s"
  have snd: "snd (get_openai_output w img prompt model mt s) = snd r"
    by (simp add: openai_handler [OF k] r_def Let_def split: sum.splits)
  from openai_try_cases [OF r_def] show ?thesis
    unfolding snd by (auto simp: new_calls_def)
next
  case False
  then show ?thesis
    by (auto simp: get_openai_output_def new_calls_same split: option.splits)
qed

lemma gemini_calls_append:
  "calls (snd (get_gemini_output w img prompt model s)) =
     calls s @ new_calls s (snd (get_gemini_output w img prompt model s))"
proof (cases "\<exists>k. environ w ''GOOGLE_API_KEY'' = Some k \<and> k \<noteq> []")
  case True
  then obtain k where k: "environ w ''GOOGLE_API_KEY'' = Some k" "k \<noteq> []" by blast
  define r where "r = gemini_try w img prompt model k s"
  have snd: "snd (get_gemini_output w img prompt model s) = snd r"
    by (simp add: gemini_handler [OF k] r_def Let_def split: sum.splits)
  from gemini_try_cases [OF r_def] show ?thesis
    unfolding snd by (auto simp: new_calls_def)
next
  case False
  then show ?thesis
    by (auto simp: get_gemini_output_def new_calls_same split: option.splits)
qed

lemma new_calls_trans:
  "calls s1 = calls s @ new_calls s s1 \<Longrightarrow> calls s2 = calls s1 @ new_calls s1 s2 \<Longrightarrow>
   new_calls s s2 = new_calls s s1 @ new_calls s1 s2"
  by (metis append.assoc new_calls_append)

text \<open>A query that returns has made all its calls.\<close>

lemma openai_returns_calls:
  assumes "fst (get_openai_output w img prompt model mt s) = Inr out"
  shows "\<exists>k request. new_calls s (snd (get_openai_output w img prompt model mt s)) =
           [Call_openai_init k, Call_models_list (OpenAI k), Call_image_save img ''PNG'',
            Call_chat_create (OpenAI k) request]"
proof (cases "\<exists>k. environ w ''OPENAI_API_KEY'' = Some k \<and> k \<noteq> []")
  case True
  then obtain k where k: "environ w ''OPENAI_API_KEY'' = Some k" "k \<noteq> []" by blast
  define r where "r = openai_try w img prompt model (case mt of None \<Rightarrow> 300 | Some n \<Rightarrow> n) k s"
  have snd: "snd (get_openai_output w img prompt model mt s) = snd r"
    by (simp add: openai_handler [OF k] r_def Let_def split: sum.splits)
  have fst: "fst r = Inr out"
    using assms by (simp add: openai_handler [OF k] r_def Let_def split: sum.splits if_splits)
  from openai_try_cases [OF r_def] fst show ?thesis
    unfolding snd by (auto simp: new_calls_def)
next
  case False
  with assms show ?thesis
    by (auto simp: get_openai_output_def split: option.splits)
qed

lemma gemini_returns_calls:
  assumes "fst (get_gemini_output w img prompt model s) = Inr out"
  shows "\<exists>k. new_calls s (snd (get_gemini_output w img prompt model s)) =
           [Call_genai_configure k ''rest'', Call_genai_list_models,
            Call_generative_model model, Call_generate_content model prompt img]"
proof (cases "\<exists>k. environ w ''GOOGLE_API_KEY'' = Some k \<and> k \<noteq> []")
  case True
  then obtain k where k: "environ w ''GOOGLE_API_KEY'' = Some k" "k \<noteq> []" by blast
  define r where "r = gemini_try w img prompt model k s"
  have snd: "snd (get_gemini_output w img prompt model s) = snd r"
    by (simp add: gemini_handler [OF k] r_def Let_def split: sum.splits)
  have fst: "fst r = Inr out"
    using assms by (simp add: gemini_handler [OF k] r_def Let_def split: sum.splits if_splits)
  from gemini_try_cases [OF r_def] fst show ?thesis
    unfolding snd by (auto simp: new_calls_def)
next
  case False
  with assms show ?thesis
    by (auto simp: get_gemini_output_def split: option.splits)
qed

lemma openai_returns_two:
  "fst (get_openai_output w img prompt model mt s) = Inr out \<Longrightarrow>
   length (network_calls (new_calls s (snd (get_openai_output w img prompt model mt s)))) = 2
   \<and> length (filter is_list_call (new_calls s (snd (get_openai_output w img prompt model mt s)))) = 1"
  using openai_returns_calls [of w img prompt model mt s out]
  by (auto simp: network_calls_def)

lemma gemini_returns_two:
  "fst (get_gemini_output w img prompt model s) = Inr out \<Longrightarrow>
   length (network_calls (new_calls s (snd (get_gemini_output w img prompt model s)))) = 2
   \<and> length (filter is_list_call (new_calls s (snd (get_gemini_output w img prompt model s)))) = 1"
  using gemini_returns_calls [of w img prompt model s out]
  by (auto simp: network_calls_def)

lemma openai_linear:
  "fetch_then_generate (network_calls (new_calls s (snd (get_openai_output w img prompt model mt s))))
   \<and> (new_calls s (snd (get_openai_output w img prompt model mt s)) \<noteq> [] \<longrightarrow>
        (\<exists>k. environ w ''OPENAI_API_KEY'' = Some k \<and> k \<noteq> []))
   \<and> ((\<exists>g \<in> set (new_calls s (snd (get_openai_output w img prompt model mt s))).
          is_generate_call g) \<longrightarrow>
        (\<exists>k cat. models_list w (OpenAI k) = Inr cat \<and> model \<in> set cat))"
  using openai_new_calls [of s w img prompt model mt]
  by (auto simp: network_calls_def)

lemma gemini_linear:
  "fetch_then_generate (network_calls (new_calls s (snd (get_gemini_output w img prompt model s))))
   \<and> (new_calls s (snd (get_gemini_output w img prompt model s)) \<noteq> [] \<longrightarrow>
        (\<exists>k. environ w ''GOOGLE_API_KEY'' = Some k \<and> k \<noteq> []))
   \<and> ((\<exists>g \<in> set (new_calls s (snd (get_gemini_output w img prompt model s))).
          is_generate_call g) \<longrightarrow>
        (\<exists>k cat. genai_list_models w (Some (k, ''rest'')) = Inr cat \<and> model \<in> set cat))"
  using gemini_new_calls [of s w img prompt model]
  by (auto simp: network_calls_def)

text \<open>The calls of one invocation, as a function of the world.\<close>

lemma openai_calls_exact:
  "new_calls s (snd (get_openai_output w img prompt model mt s)) =
     (case environ w ''OPENAI_API_KEY'' of
        None \<Rightarrow> []
      | Some k \<Rightarrow>
          if k = [] then []
          else
            Call_openai_init k #
            (case openai_init w k of
               Some e \<Rightarrow> []
             | None \<Rightarrow>
                 Call_models_list (OpenAI k) #
                 (case models_list w (OpenAI k) of
                    Inl e \<Rightarrow> []
                  | Inr catalog \<Rightarrow>
                      if model \<notin> set catalog then []
                      else
                        Call_image_save img ''PNG'' #
                        (case image_save w img ''PNG'' of
                           Inl e \<Rightarrow> []
                         | Inr png \<Rightarrow>
                             [Call_chat_create (OpenAI k)
                                (create_arguments model prompt
                                   (''data:image/jpeg;base64,'' @ b64encode png)
                                   (case mt of None \<Rightarrow> 300 | Some n \<Rightarrow> n))]))))"
proof (cases "\<exists>k. environ w ''OPENAI_API_KEY'' = Some k \<and> k \<noteq> []")
  case True
  then obtain k where k: "environ w ''OPENAI_API_KEY'' = Some k" "k \<noteq> []" by blast
  have snd: "snd (get_openai_output w img prompt model mt s) =
             snd (openai_try w img prompt model (case mt of None \<Rightarrow> 300 | Some n \<Rightarrow> n) k s)"
    by (simp add: openai_handler [OF k] Let_def split: sum.splits)
  show ?thesis
    unfolding snd
    by (simp only: k new_calls_append [OF openai_try_calls] option.case if_False)
next
  case False
  then show ?thesis
    by (auto simp: get_openai_output_def new_calls_same split: option.splits)
qed

lemma gemini_calls_exact:
  "new_calls s (snd (get_gemini_output w img prompt model s)) =
     (case environ w ''GOOGLE_API_KEY'' of
        None \<Rightarrow> []
      | Some k \<Rightarrow>
          if k = [] then []
          else
            Call_genai_configure k ''rest'' #
            (case genai_configure w k ''rest'' of
               Some e \<Rightarrow> []
             | None \<Rightarrow>
                 Call_genai_list_models #
                 (case genai_list_models w (Some (k, ''rest'')) of
                    Inl e \<Rightarrow> []
                  | Inr catalog \<Rightarrow>
                      if model \<notin> set catalog then []
                      else
                        Call_generative_model model #
                        (case genai_model_init w model of
                           Some e \<Rightarrow> []
                         | None \<Rightarrow> [Call_generate_content model prompt img]))))"
proof (cases "\<exists>k. environ w ''GOOGLE_API_KEY'' = Some k \<and> k \<noteq> []")
  case True
  then obtain k where k: "environ w ''GOOGLE_API_KEY'' = Some k" "k \<noteq> []" by blast
  have snd: "snd (get_gemini_output w img prompt model s) =
             snd (gemini_try w img prompt model k s)"
    by (simp add: gemini_handler [OF k] Let_def split: sum.splits)
  show ?thesis
    unfolding snd
    by (simp only: k new_calls_append [OF gemini_try_calls] option.case if_False)
next
  case False
  then show ?thesis
    by (auto simp: get_gemini_output_def new_calls_same split: option.splits)
qed

text \<open>A query that returns has gone through every step, and returns what the reply holds.\<close>

lemma openai_returns_steps:
  assumes "fst (get_openai_output w img prompt model mt s) = Inr out"
  shows "\<exists>k catalog png others.
           environ w ''OPENAI_API_KEY'' = Some k \<and> k \<noteq> []
         \<and> models_list w (OpenAI k) = Inr catalog \<and> model \<in> set catalog
         \<and> image_save w img ''PNG'' = Inr png
         \<and> chat_create w (OpenAI k)
              (create_arguments model prompt (''data:image/jpeg;base64,'' @ b64encode png)
                 (case mt of None \<Rightarrow> 300 | Some n \<Rightarrow> n)) = Inr (Chat_response (out # others))
         \<and> new_calls s (snd (get_openai_output w img prompt model mt s)) =
             [Call_openai_init k, Call_models_list (OpenAI k), Call_image_save img ''PNG'',
              Call_chat_create (OpenAI k)
                (create_arguments model prompt (''data:image/jpeg;base64,'' @ b64encode png)
                   (case mt of None \<Rightarrow> 300 | Some n \<Rightarrow> n))]"
proof (cases "\<exists>k. environ w ''OPENAI_API_KEY'' = Some k \<and> k \<noteq> []")
  case True
  then obtain k where k: "environ w ''OPENAI_API_KEY'' = Some k" "k \<noteq> []" by blast
  define n where "n = (case mt of None \<Rightarrow> (300::int) | Some n \<Rightarrow> n)"
  define r where "r = openai_try w img prompt model n k s"
  have snd: "snd (get_openai_output w img prompt model mt s) = snd r"
    by (simp add: openai_handler [OF k] r_def n_def Let_def split: sum.splits)
  have fst: "fst r = Inr out"
    using assms by (simp add: openai_handler [OF k] r_def n_def Let_def split: sum.splits if_splits)
  from openai_try_cases [OF r_def] fst obtain catalog png where
    c: "models_list w (OpenAI k) = Inr catalog" "model \<in> set catalog"
       "image_save w img ''PNG'' = Inr png"
    and tr: "calls (snd r) = calls s @ [Call_openai_init k, Call_models_list (OpenAI k),
               Call_image_save img ''PNG'',
               Call_chat_create (OpenAI k)
                 (create_arguments model prompt (''data:image/jpeg;base64,'' @ b64encode png) n)]"
    and res: "Inr out = (case chat_create w (OpenAI k)
                 (create_arguments model prompt (''data:image/jpeg;base64,'' @ b64encode png) n) of
                       Inl e \<Rightarrow> Inl e
                     | Inr response \<Rightarrow>
                         (case choices response of
                            [] \<Rightarrow> Inl (Exn IndexError ''list index out of range'')
                          | output # _ \<Rightarrow> Inr output))"
    by (auto simp del: append.simps b64encode.simps)
  from res obtain others where
    "chat_create w (OpenAI k)
       (create_arguments model prompt (''data:image/jpeg;base64,'' @ b64encode png) n)
     = Inr (Chat_response (out # others))"
    by (auto split: sum.splits list.splits simp del: append.simps b64encode.simps)
       (metis chat_response.collapse)
  with k c new_calls_append [OF tr] show ?thesis
    unfolding snd n_def by blast
next
  case False
  with assms show ?thesis
    by (auto simp: get_openai_output_def split: option.splits)
qed

lemma gemini_returns_steps:
  assumes "fst (get_gemini_output w img prompt model s) = Inr out"
  shows "\<exists>k catalog.
           environ w ''GOOGLE_API_KEY'' = Some k \<and> k \<noteq> []
         \<and> genai_list_models w (Some (k, ''rest'')) = Inr catalog \<and> model \<in> set catalog
         \<and> genai_generate w (Some (k, ''rest'')) model prompt img = Inr (Gen_response (Inr out))
         \<and> new_calls s (snd (get_gemini_output w img prompt model s)) =
             [Call_genai_configure k ''rest'', Call_genai_list_models,
              Call_generative_model model, Call_generate_content model prompt img]"
proof (cases "\<exists>k. environ w ''GOOGLE_API_KEY'' = Some k \<and> k \<noteq> []")
  case True
  then obtain k where k: "environ w ''GOOGLE_API_KEY'' = Some k" "k \<noteq> []" by blast
  define r where "r = gemini_try w img prompt model k s"
  have snd: "snd (get_gemini_output w img prompt model s) = snd r"
    by (simp add: gemini_handler [OF k] r_def Let_def split: sum.splits)
  have fst: "fst r = Inr out"
    using assms by (simp add: gemini_handler [OF k] r_def Let_def split: sum.splits if_splits)
  from gemini_try_cases [OF r_def] fst obtain catalog where
    c: "genai_list_models w (Some (k, ''rest'')) = Inr catalog" "model \<in> set catalog"
    and tr: "calls (snd r) = calls s @ [Call_genai_configure k ''rest'', Call_genai_list_models,
               Call_generative_model model, Call_generate_content model prompt img]"
    and res: "Inr out = (case genai_generate w (Some (k, ''rest'')) model prompt img of
                         Inl e \<Rightarrow> Inl e
                       | Inr response \<Rightarrow> response_text response)"
    by auto
  from res have "genai_generate w (Some (k, ''rest'')) model prompt img = Inr (Gen_response (Inr out))"
    by (auto split: sum.splits)
  with k c new_calls_append [OF tr] show ?thesis
    unfolding snd by blast
next
  case False
  with assms show ?thesis
    by (auto simp: get_gemini_output_def split: option.splits)
qed

lemma requests_sent_openai:
  "requests_sent w [Call_openai_init k, Call_models_list c, Call_image_save img f,
                    Call_chat_create c' request]
   = http_requests w (Call_models_list c) + http_requests w (Call_chat_create c' request)"
  by (simp add: requests_sent_def network_calls_def)

lemma requests_sent_gemini:
  "requests_sent w [Call_genai_configure k t, Call_genai_list_models,
                    Call_generative_model m, Call_generate_content m' p img]
   = http_requests w Call_genai_list_models + http_requests w (Call_generate_content m' p img)"
  by (simp add: requests_sent_def network_calls_def)

lemma retry_requests:
  "http_requests retry_world c = (if is_list_call c then 2 else 1)"
  by (simp add: retry_world_def stub_world_def)

text \<open>
  With a catalog fetch that the vendor client sent twice, an invocation that returns has
  sent three HTTP requests, not two.
\<close>

theorem returning_invocation_sends_three_requests:
  "fst (get_openai_output retry_world [1, 2, 3] ''describe'' ''m1'' None fresh) = Inr (Some ''hello'')
   \<and> requests_sent retry_world
        (new_calls fresh (snd (get_openai_output retry_world [1, 2, 3] ''describe'' ''m1'' None fresh)))
       = 3
   \<and> (3 :: nat) \<noteq> 2"
proof -
  have run: "get_openai_output retry_world [1, 2, 3] ''describe'' ''m1'' None fresh =
     (Inr (Some ''hello''),
      fresh\<lparr>calls := calls fresh @ [Call_openai_init ''sk-test'', Call_models_list (OpenAI ''sk-test''),
                Call_image_save [1, 2, 3] ''PNG'',
                Call_chat_create (OpenAI ''sk-test'')
                  (create_arguments ''m1'' ''describe''
                     (''data:image/jpeg;base64,'' @ b64encode [137, 80, 78, 71, 1, 2, 3])
                     (case None of None \<Rightarrow> 300 | Some n \<Rightarrow> n))]\<rparr>)"
    by (rule openai_success [where catalog = "[''m1'', ''m2'']" and others = "[]"])
       (simp_all add: retry_world_def stub_defs)
  show ?thesis
    unfolding run
    by (simp add: new_calls_def requests_sent_def network_calls_def retry_requests
          del: b64encode.simps)
qed

text \<open>
  Claim C9, as the code has it. Each invocation is one linear sequence of steps, stopped at
  the first that fails. For the first query: the credential is tested, then the client is
  built, the catalog fetched, the model tested against it, the bitmap saved as PNG, and the
  request with the base64 text of those bytes submitted; the calls are exactly these, in
  this order, up to the step that failed. For the second query: the credential is tested,
  the library configured, the catalog fetched, the model tested, the model object built and
  the generation called with the prompt and the bitmap. The network calls are the catalog
  fetch and then at most one generation. A query that returns has gone through every step,
  returns what the reply to its request holds, and has made exactly two network calls into
  the vendor library; the HTTP requests behind them are those that the vendor client sent
  for the two calls, added up. Nothing is kept from one invocation to the next: result and
  calls are the same from any starting process, and two invocations in a row that both
  return have fetched the catalog twice.
\<close>

theorem invocation_steps_in_order:
  "(calls (snd (get_openai_output w img prompt model mt s)) =
      calls s @ new_calls s (snd (get_openai_output w img prompt model mt s))
    \<and> new_calls s (snd (get_openai_output w img prompt model mt s)) =
       (case environ w ''OPENAI_API_KEY'' of
          None \<Rightarrow> []
        | Some k \<Rightarrow>
            if k = [] then []
            else
              Call_openai_init k #
              (case openai_init w k of
                 Some e \<Rightarrow> []
               | None \<Rightarrow>
                   Call_models_list (OpenAI k) #
                   (case models_list w (OpenAI k) of
                      Inl e \<Rightarrow> []
                    | Inr catalog \<Rightarrow>
                        if model \<notin> set catalog then []
                        else
                          Call_image_save img ''PNG'' #
                          (case image_save w img ''PNG'' of
                             Inl e \<Rightarrow> []
                           | Inr png \<Rightarrow>
                               [Call_chat_create (OpenAI k)
                                  (create_arguments model prompt
                                     (''data:image/jpeg;base64,'' @ b64encode png)
                                     (case mt of None \<Rightarrow> 300 | Some n \<Rightarrow> n))]))))
    \<and> fetch_then_generate
        (network_calls (new_calls s (snd (get_openai_output w img prompt model mt s))))
    \<and> (\<forall>out. fst (get_openai_output w img prompt model mt s) = Inr out \<longrightarrow>
         (\<exists>k catalog png others.
            environ w ''OPENAI_API_KEY'' = Some k \<and> k \<noteq> []
          \<and> models_list w (OpenAI k) = Inr catalog \<and> model \<in> set catalog
          \<and> image_save w img ''PNG'' = Inr png
          \<and> chat_create w (OpenAI k)
               (create_arguments model prompt (''data:image/jpeg;base64,'' @ b64encode png)
                  (case mt of None \<Rightarrow> 300 | Some n \<Rightarrow> n)) = Inr (Chat_response (out # others))
          \<and> new_calls s (snd (get_openai_output w img prompt model mt s)) =
              [Call_openai_init k, Call_models_list (OpenAI k), Call_image_save img ''PNG'',
               Call_chat_create (OpenAI k)
                 (create_arguments model prompt (''data:image/jpeg;base64,'' @ b64encode png)
                    (case mt of None \<Rightarrow> 300 | Some n \<Rightarrow> n))]
          \<and> requests_sent w (new_calls s (snd (get_openai_output w img prompt model mt s))) =
              http_requests w (Call_models_list (OpenAI k))
              + http_requests w
                  (Call_chat_create (OpenAI k)
                     (create_arguments model prompt (''data:image/jpeg;base64,'' @ b64encode png)
                        (case mt of None \<Rightarrow> 300 | Some n \<Rightarrow> n))))
         \<and> length (network_calls
                     (new_calls s (snd (get_openai_output w img prompt model mt s)))) = 2)
    \<and> fst (get_openai_output w img prompt model mt s) =
        fst (get_openai_output w img prompt model mt s0)
    \<and> new_calls s (snd (get_openai_output w img prompt model mt s)) =
        new_calls s0 (snd (get_openai_output w img prompt model mt s0))
    \<and> ((\<exists>out. fst (get_openai_output w img prompt model mt s) = Inr out)
        \<and> (\<exists>out. fst (get_openai_output w2 img2 prompt2 model2 mt2
                         (snd (get_openai_output w img prompt model mt s))) = Inr out) \<longrightarrow>
         length (filter is_list_call
                   (new_calls s (snd (get_openai_output w2 img2 prompt2 model2 mt2
                                        (snd (get_openai_output w img prompt model mt s)))))) = 2))
   \<and> (calls (snd (get_gemini_output w img prompt model s)) =
      calls s @ new_calls s (snd (get_gemini_output w img prompt model s))
    \<and> new_calls s (snd (get_gemini_output w img prompt model s)) =
       (case environ w ''GOOGLE_API_KEY'' of
          None \<Rightarrow> []
        | Some k \<Rightarrow>
            if k = [] then []
            else
              Call_genai_configure k ''rest'' #
              (case genai_configure w k ''rest'' of
                 Some e \<Rightarrow> []
               | None \<Rightarrow>
                   Call_genai_list_models #
                   (case genai_list_models w (Some (k, ''rest'')) of
                      Inl e \<Rightarrow> []
                    | Inr catalog \<Rightarrow>
                        if model \<notin> set catalog then []
                        else
                          Call_generative_model model #
                          (case genai_model_init w model of
                             Some e \<Rightarrow> []
                           | None \<Rightarrow> [Call_generate_content model prompt img]))))
    \<and> fetch_then_generate
        (network_calls (new_calls s (snd (get_gemini_output w img prompt model s))))
    \<and> (\<forall>out. fst (get_gemini_output w img prompt model s) = Inr out \<longrightarrow>
         (\<exists>k catalog.
            environ w ''GOOGLE_API_KEY'' = Some k \<and> k \<noteq> []
          \<and> genai_list_models w (Some (k, ''rest'')) = Inr catalog \<and> model \<in> set catalog
          \<and> genai_generate w (Some (k, ''rest'')) model prompt img = Inr (Gen_response (Inr out))
          \<and> new_calls s (snd (get_gemini_output w img prompt model s)) =
              [Call_genai_configure k ''rest'', Call_genai_list_models,
               Call_generative_model model, Call_generate_content model prompt img]
          \<and> requests_sent w (new_calls s (snd (get_gemini_output w img prompt model s))) =
              http_requests w Call_genai_list_models
              + http_requests w (Call_generate_content model prompt img))
         \<and> length (network_calls
                     (new_calls s (snd (get_gemini_output w img prompt model s)))) = 2)
    \<and> fst (get_gemini_output w img prompt model s) =
        fst (get_gemini_output w img prompt model s0)
    \<and> new_calls s (snd (get_gemini_output w img prompt model s)) =
        new_calls s0 (snd (get_gemini_output w img prompt model s0))
    \<and> ((\<exists>out. fst (get_gemini_output w img prompt model s) = Inr out)
        \<and> (\<exists>out. fst (get_gemini_output w2 img2 prompt2 model2
                         (snd (get_gemini_output w img prompt model s))) = Inr out) \<longrightarrow>
         length (filter is_list_call
                   (new_calls s (snd (get_gemini_output w2 img2 prompt2 model2
                                        (snd (get_gemini_output w img prompt model s)))))) = 2))"
proof -
  have a1: "\<forall>out. fst (get_openai_output w img prompt model mt s) = Inr out \<longrightarrow>
         (\<exists>k catalog png others.
            environ w ''OPENAI_API_KEY'' = Some k \<and> k \<noteq> []
          \<and> models_list w (OpenAI k) = Inr catalog \<and> model \<in> set catalog
          \<and> image_save w img ''PNG'' = Inr png
          \<and> chat_create w (OpenAI k)
               (create_arguments model prompt (''data:image/jpeg;base64,'' @ b64encode png)
                  (case mt of None \<Rightarrow> 300 | Some n \<Rightarrow> n)) = Inr (Chat_response (out # others))
          \<and> new_calls s (snd (get_openai_output w img prompt model mt s)) =
              [Call_openai_init k, Call_models_list (OpenAI k), Call_image_save img ''PNG'',
               Call_chat_create (OpenAI k)
                 (create_arguments model prompt (''data:image/jpeg;base64,'' @ b64encode png)
                    (case mt of None \<Rightarrow> 300 | Some n \<Rightarrow> n))]
          \<and> requests_sent w (new_calls s (snd (get_openai_output w img prompt model mt s))) =
              http_requests w (Call_models_list (OpenAI k))
              + http_requests w
                  (Call_chat_create (OpenAI k)
                     (create_arguments model prompt (''data:image/jpeg;base64,'' @ b64encode png)
                        (case mt of None \<Rightarrow> 300 | Some n \<Rightarrow> n))))
         \<and> length (network_calls
                     (new_calls s (snd (get_openai_output w img prompt model mt s)))) = 2"
  proof (intro allI impI conjI)
    fix out assume out: "fst (get_openai_output w img prompt model mt s) = Inr out"
    from openai_returns_steps [OF out] obtain k catalog png others where
      f: "environ w ''OPENAI_API_KEY'' = Some k" "k \<noteq> []"
         "models_list w (OpenAI k) = Inr catalog" "model \<in> set catalog"
         "image_save w img ''PNG'' = Inr png"
         "chat_create w (OpenAI k)
               (create_arguments model prompt (''data:image/jpeg;base64,'' @ b64encode png)
                  (case mt of None \<Rightarrow> 300 | Some n \<Rightarrow> n)) = Inr (Chat_response (out # others))"
      and tr: "new_calls s (snd (get_openai_output w img prompt model mt s)) =
              [Call_openai_init k, Call_models_list (OpenAI k), Call_image_save img ''PNG'',
               Call_chat_create (OpenAI k)
                 (create_arguments model prompt (''data:image/jpeg;base64,'' @ b64encode png)
                    (case mt of None \<Rightarrow> 300 | Some n \<Rightarrow> n))]"
      by blast
    have rq: "requests_sent w (new_calls s (snd (get_openai_output w img prompt model mt s))) =
              http_requests w (Call_models_list (OpenAI k))
              + http_requests w
                  (Call_chat_create (OpenAI k)
                     (create_arguments model prompt (''data:image/jpeg;base64,'' @ b64encode png)
                        (case mt of None \<Rightarrow> 300 | Some n \<Rightarrow> n)))"
      unfolding tr by (rule requests_sent_openai)
    from f tr rq show "\<exists>k catalog png others.
            environ w ''OPENAI_API_KEY'' = Some k \<and> k \<noteq> []
          \<and> models_list w (OpenAI k) = Inr catalog \<and> model \<in> set catalog
          \<and> image_save w img ''PNG'' = Inr png
          \<and> chat_create w (OpenAI k)
               (create_arguments model prompt (''data:image/jpeg;base64,'' @ b64encode png)
                  (case mt of None \<Rightarrow> 300 | Some n \<Rightarrow> n)) = Inr (Chat_response (out # others))
          \<and> new_calls s (snd (get_openai_output w img prompt model mt s)) =
              [Call_openai_init k, Call_models_list (OpenAI k), Call_image_save img ''PNG'',
               Call_chat_create (OpenAI k)
                 (create_arguments model prompt (''data:image/jpeg;base64,'' @ b64encode png)
                    (case mt of None \<Rightarrow> 300 | Some n \<Rightarrow> n))]
          \<and> requests_sent w (new_calls s (snd (get_openai_output w img prompt model mt s))) =
              http_requests w (Call_models_list (OpenAI k))
              + http_requests w
                  (Call_chat_create (OpenAI k)
                     (create_arguments model prompt (''data:image/jpeg;base64,'' @ b64encode png)
                        (case mt of None \<Rightarrow> 300 | Some n \<Rightarrow> n)))"
      by blast
    show "length (network_calls
                     (new_calls s (snd (get_openai_output w img prompt model mt s)))) = 2"
      unfolding tr by (simp add: network_calls_def)
  qed
  have b1: "\<forall>out. fst (get_gemini_output w img prompt model s) = Inr out \<longrightarrow>
         (\<exists>k catalog.
            environ w ''GOOGLE_API_KEY'' = Some k \<and> k \<noteq> []
          \<and> genai_list_models w (Some (k, ''rest'')) = Inr catalog \<and> model \<in> set catalog
          \<and> genai_generate w (Some (k, ''rest'')) model prompt img = Inr (Gen_response (Inr out))
          \<and> new_calls s (snd (get_gemini_output w img prompt model s)) =
              [Call_genai_configure k ''rest'', Call_genai_list_models,
               Call_generative_model model, Call_generate_content model prompt img]
          \<and> requests_sent w (new_calls s (snd (get_gemini_output w img prompt model s))) =
              http_requests w Call_genai_list_models
              + http_requests w (Call_generate_content model prompt img))
         \<and> length (network_calls
                     (new_calls s (snd (get_gemini_output w img prompt model s)))) = 2"
  proof (intro allI impI conjI)
    fix out assume out: "fst (get_gemini_output w img prompt model s) = Inr out"
    from gemini_returns_steps [OF out] obtain k catalog where
      f: "environ w ''GOOGLE_API_KEY'' = Some k" "k \<noteq> []"
         "genai_list_models w (Some (k, ''rest'')) = Inr catalog" "model \<in> set catalog"
         "genai_generate w (Some (k, ''rest'')) model prompt img = Inr (Gen_response (Inr out))"
      and tr: "new_calls s (snd (get_gemini_output w img prompt model s)) =
              [Call_genai_configure k ''rest'', Call_genai_list_models,
               Call_generative_model model, Call_generate_content model prompt img]"
      by blast
    have rq: "requests_sent w (new_calls s (snd (get_gemini_output w img prompt model s))) =
              http_requests w Call_genai_list_models
              + http_requests w (Call_generate_content model prompt img)"
      unfolding tr by (rule requests_sent_gemini)
    from f tr rq show "\<exists>k catalog.
            environ w ''GOOGLE_API_KEY'' = Some k \<and> k \<noteq> []
          \<and> genai_list_models w (Some (k, ''rest'')) = Inr catalog \<and> model \<in> set catalog
          \<and> genai_generate w (Some (k, ''rest'')) model prompt img = Inr (Gen_response (Inr out))
          \<and> new_calls s (snd (get_gemini_output w img prompt model s)) =
              [Call_genai_configure k ''rest'', Call_genai_list_models,
               Call_generative_model model, Call_generate_content model prompt img]
          \<and> requests_sent w (new_calls s (snd (get_gemini_output w img prompt model s))) =
              http_requests w Call_genai_list_models
              + http_requests w (Call_generate_content model prompt img)"
      by blast
    show "length (network_calls
                     (new_calls s (snd (get_gemini_output w img prompt model s)))) = 2"
      unfolding tr by (simp add: network_calls_def)
  qed
  have a2: "(\<exists>out. fst (get_openai_output w img prompt model mt s) = Inr out)
        \<and> (\<exists>out. fst (get_openai_output w2 img2 prompt2 model2 mt2
                         (snd (get_openai_output w img prompt model mt s))) = Inr out) \<longrightarrow>
         length (filter is_list_call
                   (new_calls s (snd (get_openai_output w2 img2 prompt2 model2 mt2
                                        (snd (get_openai_output w img prompt model mt s)))))) = 2"
  proof (intro impI, elim conjE exE)
    fix o1 o2
    assume "fst (get_openai_output w img prompt model mt s) = Inr o1"
      and "fst (get_openai_output w2 img2 prompt2 model2 mt2
                  (snd (get_openai_output w img prompt model mt s))) = Inr o2"
    then show "length (filter is_list_call
                   (new_calls s (snd (get_openai_output w2 img2 prompt2 model2 mt2
                                        (snd (get_openai_output w img prompt model mt s)))))) = 2"
      using openai_returns_two [of w img prompt model mt s o1]
        openai_returns_two [of w2 img2 prompt2 model2 mt2
                              "snd (get_openai_output w img prompt model mt s)" o2]
      by (simp add: new_calls_trans [OF openai_calls_append openai_calls_append])
  qed
  have b2: "(\<exists>out. fst (get_gemini_output w img prompt model s) = Inr out)
        \<and> (\<exists>out. fst (get_gemini_output w2 img2 prompt2 model2
                         (snd (get_gemini_output w img prompt model s))) = Inr out) \<longrightarrow>
         length (filter is_list_call
                   (new_calls s (snd (get_gemini_output w2 img2 prompt2 model2
                                        (snd (get_gemini_output w img prompt model s)))))) = 2"
  proof (intro impI, elim conjE exE)
    fix o1 o2
    assume "fst (get_gemini_output w img prompt model s) = Inr o1"
      and "fst (get_gemini_output w2 img2 prompt2 model2
                  (snd (get_gemini_output w img prompt model s))) = Inr o2"
    then show "length (filter is_list_call
                   (new_calls s (snd (get_gemini_output w2 img2 prompt2 model2
                                        (snd (get_gemini_output w img prompt model s)))))) = 2"
      using gemini_returns_two [of w img prompt model s o1]
        gemini_returns_two [of w2 img2 prompt2 model2
                              "snd (get_gemini_output w img prompt model s)" o2]
      by (simp add: new_calls_trans [OF gemini_calls_append gemini_calls_append])
  qed
  from openai_calls_append [of w img prompt model mt s]
    openai_calls_exact [of s w img prompt model mt]
    openai_linear [of s w img prompt model mt, THEN conjunct1]
    a1
    openai_independent [of w img prompt model mt s s0, THEN conjunct1]
    openai_independent [of w img prompt model mt s s0, THEN conjunct2]
    a2
    gemini_calls_append [of w img prompt model s]
    gemini_calls_exact [of s w img prompt model]
    gemini_linear [of s w img prompt model, THEN conjunct1]
    b1
    gemini_independent [of w img prompt model s s0, THEN conjunct1]
    gemini_independent [of w img prompt model s s0, THEN conjunct2]
    b2
  show ?thesis by (intro conjI)
qed

text \<open>The stubbed world, run from any process.\<close>

lemma stub_openai_returns:
  "fst (get_openai_output stub_world [1, 2, 3] ''describe'' ''m1'' None s) = Inr (Some ''hello'')"
proof -
  have "get_openai_output stub_world [1, 2, 3] ''describe'' ''m1'' None s =
     (Inr (Some ''hello''),
      s\<lparr>calls := calls s @ [Call_openai_init ''sk-test'', Call_models_list (OpenAI ''sk-test''),
                Call_image_save [1, 2, 3] ''PNG'',
                Call_chat_create (OpenAI ''sk-test'')
                  (create_arguments ''m1'' ''describe''
                     (''data:image/jpeg;base64,'' @ b64encode [137, 80, 78, 71, 1, 2, 3])
                     (case None of None \<Rightarrow> 300 | Some n \<Rightarrow> n))]\<rparr>)"
    by (rule openai_success [where catalog = "[''m1'', ''m2'']" and others = "[]"])
       (simp_all add: stub_defs)
  then show ?thesis by (simp only: fst_conv)
qed

lemma stub_gemini_run:
  "get_gemini_output stub_world [1, 2, 3] ''describe'' ''m1'' s =
     (Inr ''hello'',
      s\<lparr>genai_default := Some (''g-test'', ''rest''),
        calls := calls s @
          [Call_genai_configure ''g-test'' ''rest'', Call_genai_list_models,
           Call_generative_model ''m1'', Call_generate_content ''m1'' ''describe'' [1, 2, 3]]\<rparr>)"
  by (rule gemini_success [where catalog = "[''m1'', ''m2'']"]) (simp_all add: stub_defs)

theorem invocation_steps_in_order_witness:
  "(\<exists>out. fst (get_openai_output stub_world [1, 2, 3] ''describe'' ''m1'' None fresh) = Inr out)
   \<and> length (network_calls (new_calls fresh
        (snd (get_openai_output stub_world [1, 2, 3] ''describe'' ''m1'' None fresh)))) = 2
   \<and> length (filter is_list_call (new_calls fresh
        (snd (get_openai_output stub_world [1, 2, 3] ''describe'' ''m1'' None
           (snd (get_openai_output stub_world [1, 2, 3] ''describe'' ''m1'' None fresh)))))) = 2
   \<and> (\<exists>out. fst (get_gemini_output stub_world [1, 2, 3] ''describe'' ''m1'' fresh) = Inr out)
   \<and> length (network_calls (new_calls fresh
        (snd (get_gemini_output stub_world [1, 2, 3] ''describe'' ''m1'' fresh)))) = 2
   \<and> length (filter is_list_call (new_calls fresh
        (snd (get_gemini_output stub_world [1, 2, 3] ''describe'' ''m1''
           (snd (get_gemini_output stub_world [1, 2, 3] ''describe'' ''m1'' fresh)))))) = 2"
proof -
  have a: "fst (get_openai_output stub_world [1, 2, 3] ''describe'' ''m1'' None s) = Inr (Some ''hello'')"
    for s by (rule stub_openai_returns)
  have b: "fst (get_gemini_output stub_world [1, 2, 3] ''describe'' ''m1'' s) = Inr ''hello''"
    for s by (simp only: stub_gemini_run fst_conv)
  have a': "\<exists>out. fst (get_openai_output stub_world [1, 2, 3] ''describe'' ''m1'' None s) = Inr out"
    for s using a [of s] by blast
  have b': "\<exists>out. fst (get_gemini_output stub_world [1, 2, 3] ''describe'' ''m1'' s) = Inr out"
    for s using b [of s] by blast
  note t = invocation_steps_in_order
         [where w = stub_world and img = "[1, 2, 3]" and prompt = "''describe''"
            and model = "''m1''" and mt = None and s = fresh and ?s0.0 = fresh
            and ?w2.0 = stub_world and ?img2.0 = "[1, 2, 3]" and ?prompt2.0 = "''describe''"
            and ?model2.0 = "''m1''" and ?mt2.0 = None]
  note ta = t [THEN conjunct1] and tb = t [THEN conjunct2]
  note ta4 = ta [THEN conjunct2, THEN conjunct2, THEN conjunct2, THEN conjunct1]
  note ta7 = ta [THEN conjunct2, THEN conjunct2, THEN conjunct2, THEN conjunct2,
                 THEN conjunct2, THEN conjunct2]
  note tb4 = tb [THEN conjunct2, THEN conjunct2, THEN conjunct2, THEN conjunct1]
  note tb7 = tb [THEN conjunct2, THEN conjunct2, THEN conjunct2, THEN conjunct2,
                 THEN conjunct2, THEN conjunct2]
  show ?thesis
    using a' [of fresh] ta4 [rule_format, OF a, THEN conjunct2]
      ta7 [rule_format, OF conjI [OF a' a']]
      b' [of fresh] tb4 [rule_format, OF b, THEN conjunct2]
      tb7 [rule_format, OF conjI [OF b' b']]
    by (intro conjI)
qed

section \<open>The state of the process\<close>

lemma openai_keeps_genai_default:
  "genai_default (snd (get_openai_output w img prompt model mt s)) = genai_default s"
proof (cases "\<exists>k. environ w ''OPENAI_API_KEY'' = Some k \<and> k \<noteq> []")
  case True
  then obtain k where k: "environ w ''OPENAI_API_KEY'' = Some k" "k \<noteq> []" by blast
  define r where "r = openai_try w img prompt model (case mt of None \<Rightarrow> 300 | Some n \<Rightarrow> n) k s"
  have snd: "snd (get_openai_output w img prompt model mt s) = snd r"
    by (simp add: openai_handler [OF k] r_def Let_def split: sum.splits)
  from openai_try_cases [OF r_def] show ?thesis
    unfolding snd by blast
next
  case False
  then show ?thesis
    by (auto simp: get_openai_output_def split: option.splits)
qed

lemma gemini_sets_genai_default:
  "genai_default (snd (get_gemini_output w img prompt model s)) =
     (case environ w ''GOOGLE_API_KEY'' of
        None \<Rightarrow> genai_default s
      | Some k \<Rightarrow>
          if k = [] \<or> genai_configure w k ''rest'' \<noteq> None then genai_default s
          else Some (k, ''rest''))"
proof (cases "\<exists>k. environ w ''GOOGLE_API_KEY'' = Some k \<and> k \<noteq> []")
  case True
  then obtain k where k: "environ w ''GOOGLE_API_KEY'' = Some k" "k \<noteq> []" by blast
  define r where "r = gemini_try w img prompt model k s"
  have snd: "snd (get_gemini_output w img prompt model s) = snd r"
    by (simp add: gemini_handler [OF k] r_def Let_def split: sum.splits)
  from gemini_try_cases [OF r_def] k show ?thesis
    unfolding snd by auto
next
  case False
  then show ?thesis
    by (auto simp: get_gemini_output_def split: option.splits)
qed

text \<open>
  A call of \<open>get_gemini_output\<close> on a fresh process leaves the library configured:
  the state of the process after the call is not the state before it.
\<close>

theorem gemini_call_changes_process_state:
  "\<not> (genai_default (snd (get_gemini_output stub_world [1, 2, 3] ''describe'' ''m1'' fresh))
       = genai_default fresh)"
  by (simp add: stub_gemini_run fresh_fields)

text \<open>
  Claim C7, as the code has it. A call of \<open>get_openai_output\<close> leaves the state of
  the process as it was; when the credential is present, its first call is the construction
  of its own client from the credential, and every call after it is the catalog fetch or
  the generation on that client, or the save of the bitmap. A call of
  \<open>get_gemini_output\<close> builds no client that holds the credential: when the credential
  is present, its first call is \<^verbatim>\<open>genai.configure\<close> with the credential and the
  transport \<^verbatim>\<open>rest\<close>, and every call after it (the catalog fetch, the model object
  built from the model name, the generation) is given no credential; when
  \<^verbatim>\<open>genai.configure\<close> returns, the configuration of the library is the credential
  and \<^verbatim>\<open>rest\<close> after the call, whether it returns or raises, and otherwise it is as
  it was. With the credential absent or empty neither call changes anything. Result and
  calls of either query do not depend on the process it starts from: no invocation reads
  what another one left.
\<close>

theorem process_state_after_invocation:
  "(genai_default (snd (get_openai_output w img prompt model mt s)) = genai_default s
    \<and> (\<forall>k. environ w ''OPENAI_API_KEY'' = Some k \<and> k \<noteq> [] \<longrightarrow>
         (\<exists>rest. new_calls s (snd (get_openai_output w img prompt model mt s))
                   = Call_openai_init k # rest
            \<and> (\<forall>c \<in> set rest. c = Call_models_list (OpenAI k)
                              \<or> c = Call_image_save img ''PNG''
                              \<or> (\<exists>request. c = Call_chat_create (OpenAI k) request))))
    \<and> (environ w ''OPENAI_API_KEY'' = None \<or> environ w ''OPENAI_API_KEY'' = Some [] \<longrightarrow>
         snd (get_openai_output w img prompt model mt s) = s)
    \<and> fst (get_openai_output w img prompt model mt s) =
        fst (get_openai_output w img prompt model mt s0)
    \<and> new_calls s (snd (get_openai_output w img prompt model mt s)) =
        new_calls s0 (snd (get_openai_output w img prompt model mt s0)))
   \<and> (genai_default (snd (get_gemini_output w img prompt model s)) =
       (case environ w ''GOOGLE_API_KEY'' of
          None \<Rightarrow> genai_default s
        | Some k \<Rightarrow>
            if k = [] \<or> genai_configure w k ''rest'' \<noteq> None then genai_default s
            else Some (k, ''rest''))
    \<and> (\<forall>k. environ w ''GOOGLE_API_KEY'' = Some k \<and> k \<noteq> [] \<longrightarrow>
         (\<exists>rest. new_calls s (snd (get_gemini_output w img prompt model s))
                   = Call_genai_configure k ''rest'' # rest
            \<and> (\<forall>c \<in> set rest. c = Call_genai_list_models
                              \<or> c = Call_generative_model model
                              \<or> c = Call_generate_content model prompt img)))
    \<and> (environ w ''GOOGLE_API_KEY'' = None \<or> environ w ''GOOGLE_API_KEY'' = Some [] \<longrightarrow>
         snd (get_gemini_output w img prompt model s) = s)
    \<and> fst (get_gemini_output w img prompt model s) =
        fst (get_gemini_output w img prompt model s0)
    \<and> new_calls s (snd (get_gemini_output w img prompt model s)) =
        new_calls s0 (snd (get_gemini_output w img prompt model s0)))"
proof -
  have a2: "\<forall>k. environ w ''OPENAI_API_KEY'' = Some k \<and> k \<noteq> [] \<longrightarrow>
         (\<exists>rest. new_calls s (snd (get_openai_output w img prompt model mt s))
                   = Call_openai_init k # rest
            \<and> (\<forall>c \<in> set rest. c = Call_models_list (OpenAI k)
                              \<or> c = Call_image_save img ''PNG''
                              \<or> (\<exists>request. c = Call_chat_create (OpenAI k) request)))"
    unfolding openai_calls_exact
    by (auto split: option.splits sum.splits simp del: append.simps b64encode.simps)
  have a3: "environ w ''OPENAI_API_KEY'' = None \<or> environ w ''OPENAI_API_KEY'' = Some [] \<longrightarrow>
         snd (get_openai_output w img prompt model mt s) = s"
    by (auto simp: get_openai_output_def)
  have b2: "\<forall>k. environ w ''GOOGLE_API_KEY'' = Some k \<and> k \<noteq> [] \<longrightarrow>
         (\<exists>rest. new_calls s (snd (get_gemini_output w img prompt model s))
                   = Call_genai_configure k ''rest'' # rest
            \<and> (\<forall>c \<in> set rest. c = Call_genai_list_models
                              \<or> c = Call_generative_model model
                              \<or> c = Call_generate_content model prompt img))"
    unfolding gemini_calls_exact
    by (auto split: option.splits sum.splits)
  have b3: "environ w ''GOOGLE_API_KEY'' = None \<or> environ w ''GOOGLE_API_KEY'' = Some [] \<longrightarrow>
         snd (get_gemini_output w img prompt model s) = s"
    by (auto simp: get_gemini_output_def)
  from openai_keeps_genai_default [of w img prompt model mt s]
    a2 a3
    openai_independent [of w img prompt model mt s s0, THEN conjunct1]
    openai_independent [of w img prompt model mt s s0, THEN conjunct2]
    gemini_sets_genai_default [of w img prompt model s]
    b2 b3
    gemini_independent [of w img prompt model s s0, THEN conjunct1]
    gemini_independent [of w img prompt model s s0, THEN conjunct2]
  show ?thesis by (intro conjI)
qed

theorem process_state_after_invocation_witness:
  "genai_default (snd (get_openai_output stub_world [1, 2, 3] ''describe'' ''m1'' None fresh)) = None
   \<and> (\<exists>rest. new_calls fresh (snd (get_openai_output stub_world [1, 2, 3] ''describe'' ''m1'' None fresh))
               = Call_openai_init ''sk-test'' # rest)
   \<and> genai_default (snd (get_gemini_output stub_world [1, 2, 3] ''describe'' ''m1'' fresh))
       = Some (''g-test'', ''rest'')
   \<and> (\<exists>rest. new_calls fresh (snd (get_gemini_output stub_world [1, 2, 3] ''describe'' ''m1'' fresh))
               = Call_genai_configure ''g-test'' ''rest'' # rest)"
proof -
  note t = process_state_after_invocation
             [where w = stub_world and img = "[1, 2, 3]" and prompt = "''describe''"
                and model = "''m1''" and mt = None and s = fresh and ?s0.0 = fresh]
  note ta = t [THEN conjunct1] and tb = t [THEN conjunct2]
  have ka: "environ stub_world ''OPENAI_API_KEY'' = Some ''sk-test'' \<and> ''sk-test'' \<noteq> []"
    by (simp add: stub_defs)
  have kb: "environ stub_world ''GOOGLE_API_KEY'' = Some ''g-test'' \<and> ''g-test'' \<noteq> []"
    by (simp add: stub_defs)
  have 1: "genai_default (snd (get_openai_output stub_world [1, 2, 3] ''describe'' ''m1'' None fresh)) = None"
    using ta [THEN conjunct1] by (simp add: fresh_fields)
  have 2: "\<exists>rest. new_calls fresh (snd (get_openai_output stub_world [1, 2, 3] ''describe'' ''m1'' None fresh))
               = Call_openai_init ''sk-test'' # rest"
    using ta [THEN conjunct2, THEN conjunct1, rule_format, OF ka] by blast
  have 3: "genai_default (snd (get_gemini_output stub_world [1, 2, 3] ''describe'' ''m1'' fresh))
       = Some (''g-test'', ''rest'')"
    using tb [THEN conjunct1] by (simp add: stub_defs)
  have 4: "\<exists>rest. new_calls fresh (snd (get_gemini_output stub_world [1, 2, 3] ''describe'' ''m1'' fresh))
               = Call_genai_configure ''g-test'' ''rest'' # rest"
    using tb [THEN conjunct2, THEN conjunct1, rule_format, OF kb] by blast
  from 1 2 3 4 show ?thesis by (intro conjI)
qed

section \<open>The two handlers\<close>

text \<open>The unsupported model, in general and on the scenario of the specification.\<close>

lemma unsupported_model_error:
  "(environ w ''OPENAI_API_KEY'' = Some k \<and> k \<noteq> [] \<and> openai_init w k = None
      \<and> models_list w (OpenAI k) = Inr catalog \<and> model \<notin> set catalog
    \<longrightarrow> fst (get_openai_output w img prompt model mt s) =
          Inl (Exn LookupError
                 (''Model '' @ [CHR 0x27] @ model @ [CHR 0x27]
                  @ '' is not supported. Available models: '' @ py_str_list catalog)))
   \<and> (environ w ''GOOGLE_API_KEY'' = Some g \<and> g \<noteq> [] \<and> genai_configure w g ''rest'' = None
      \<and> genai_list_models w (Some (g, ''rest'')) = Inr catalog' \<and> model' \<notin> set catalog'
    \<longrightarrow> fst (get_gemini_output w img prompt model' s) =
          Inl (Exn LookupError
                 (''Model '' @ [CHR 0x27] @ model' @ [CHR 0x27]
                  @ '' is not supported. Available models: '' @ py_str_list catalog')))"
  by (auto simp: openai_handler gemini_handler openai_try_def gemini_try_def Let_def call_def
        unsupported_message_def simp del: append.simps)

lemma unsupported_model_scenario:
  "fst (get_openai_output stub_world [1, 2, 3] ''describe'' ''m3'' None fresh) =
     Inl (Exn LookupError ''Model 'm3' is not supported. Available models: ['m1', 'm2']'')
   \<and> fst (get_gemini_output stub_world [1, 2, 3] ''describe'' ''m3'' fresh) =
     Inl (Exn LookupError ''Model 'm3' is not supported. Available models: ['m1', 'm2']'')"
proof -
  have m: "''Model '' @ [CHR 0x27] @ ''m3'' @ [CHR 0x27]
           @ '' is not supported. Available models: '' @ py_str_list [''m1'', ''m2'']
         = ''Model 'm3' is not supported. Available models: ['m1', 'm2']''"
    by (simp add: py_str_list_def py_repr_def py_repr_char_def py_printable_def Let_def)
  from unsupported_model_error
         [where w = stub_world and k = "''sk-test''" and catalog = "[''m1'', ''m2'']"
            and model = "''m3''" and g = "''g-test''" and catalog' = "[''m1'', ''m2'']"
            and model' = "''m3''" and img = "[1, 2, 3]" and prompt = "''describe''"
            and mt = None and s = fresh]
  show ?thesis
    unfolding m by (simp add: stub_defs)
qed

text \<open>
  Claim C1. A model that is not in the fetched catalog gives a \<^verbatim>\<open>LookupError\<close>
  whose text lists the catalog (the two lemmas above). The other half of the claim, that
  no error of that kind is raised when the model is in the catalog, does not hold of the
  code: with the model \<^verbatim>\<open>m1\<close> in the catalog and a chat completion that comes
  back with no choice, \<^verbatim>\<open>response.choices[0]\<close> raises \<^verbatim>\<open>IndexError\<close>, which
  is a \<^verbatim>\<open>LookupError\<close>, and the first handler passes it on as it is.
\<close>

theorem supported_model_yet_lookup_error:
  "models_list no_choice_world (OpenAI ''sk-test'') = Inr [''m1'', ''m2'']
   \<and> ''m1'' \<in> set [''m1'', ''m2'']
   \<and> fst (get_openai_output no_choice_world [1, 2, 3] ''describe'' ''m1'' None fresh) =
       Inl (Exn IndexError ''list index out of range'')
   \<and> is_LookupError (exn_cls (Exn IndexError ''list index out of range''))"
  by (simp add: get_openai_output_def openai_try_def pil2base64_def Let_def call_def
        no_choice_world_def stub_defs)

text \<open>What the second handler wraps, in general and on a stubbed connection error.\<close>

lemma generation_error_wrapped:
  "(environ w ''OPENAI_API_KEY'' = Some k \<and> k \<noteq> [] \<and> openai_init w k = None
      \<and> models_list w (OpenAI k) = Inr catalog \<and> model \<in> set catalog
      \<and> image_save w img ''PNG'' = Inr png
      \<and> chat_create w (OpenAI k)
           (create_arguments model prompt (''data:image/jpeg;base64,'' @ b64encode png)
              (case mt of None \<Rightarrow> 300 | Some n \<Rightarrow> n)) = Inl e
    \<longrightarrow> fst (get_openai_output w img prompt model mt s) =
          (if is_LookupError (exn_cls e) then Inl e
           else Inl (Exn RuntimeError (''Failed to generate OpenAI output: '' @ exn_str e))))
   \<and> (environ w ''GOOGLE_API_KEY'' = Some g \<and> g \<noteq> [] \<and> genai_configure w g ''rest'' = None
      \<and> genai_list_models w (Some (g, ''rest'')) = Inr catalog' \<and> model' \<in> set catalog'
      \<and> genai_model_init w model' = None
      \<and> genai_generate w (Some (g, ''rest'')) model' prompt' img = Inl e'
    \<longrightarrow> fst (get_gemini_output w img prompt' model' s) =
          (if is_LookupError (exn_cls e') then Inl e'
           else Inl (Exn RuntimeError (''Failed to generate Gemini output: '' @ exn_str e'))))"
  by (auto simp: openai_handler gemini_handler openai_try_def gemini_try_def pil2base64_def
        Let_def call_def simp del: append.simps b64encode.simps)

lemma connection_error_wrapped:
  "fst (get_openai_output offline_world [1, 2, 3] ''describe'' ''m1'' None fresh) =
     Inl (Exn RuntimeError ''Failed to generate OpenAI output: Connection error.'')
   \<and> fst (get_gemini_output offline_world [1, 2, 3] ''describe'' ''m1'' fresh) =
     Inl (Exn RuntimeError ''Failed to generate Gemini output: 503 unavailable'')"
  by (simp add: get_openai_output_def get_gemini_output_def openai_try_def gemini_try_def
        pil2base64_def Let_def call_def offline_world_def stub_defs)

text \<open>
  Claim C2. An error of the generation call is wrapped in a \<^verbatim>\<open>RuntimeError\<close>
  holding its text when its class is outside the \<^verbatim>\<open>LookupError\<close> family (the two
  lemmas above). It is not wrapped when its class is inside: a \<^verbatim>\<open>KeyError\<close> raised
  by the generation call of either provider comes out of the query as the same
  \<^verbatim>\<open>KeyError\<close>, which is neither the \<^verbatim>\<open>RuntimeError\<close> of the claim nor the
  error of the model validation.
\<close>

theorem lookup_family_error_not_wrapped:
  "fst (get_openai_output key_error_world [1, 2, 3] ''describe'' ''m1'' None fresh) =
     Inl (Exn KeyError [CHR 0x27, CHR ''x'', CHR 0x27])
   \<and> fst (get_gemini_output key_error_world [1, 2, 3] ''describe'' ''m1'' fresh) =
     Inl (Exn KeyError [CHR 0x27, CHR ''x'', CHR 0x27])
   \<and> KeyError \<noteq> RuntimeError \<and> KeyError \<noteq> LookupError"
  by (simp add: get_openai_output_def get_gemini_output_def openai_try_def gemini_try_def
        pil2base64_def Let_def call_def key_error_world_def stub_defs)

end
